theory Spec2Isabelle
  imports Complex_Main
begin

section \<open>Course search of the path planner (search.cpp)\<close>

text \<open>
  The development embeds \<^verbatim>\<open>path_planner/src/course/search.cpp\<close>: the cost model, the
  Dijkstra-style search over transition nodes, the assembly of the pose sequence and the
  entry point \<^verbatim>\<open>findPath\<close>.

  Conventions of the embedding.
  \<^item> A C++ \<^verbatim>\<open>double\<close> is a real number; the value \<^verbatim>\<open>+infinity\<close> of a cost is the
    constructor \<open>PInf\<close> of the type \<open>xreal\<close>. Rounding, NaN and signed zeros are not
    modelled.
  \<^item> An \<^verbatim>\<open>Eigen::Vector2d\<close> is a pair of reals.
  \<^item> The course is the list of segments the generator returns. A \<^verbatim>\<open>Segment*\<close> is the
    index of the segment in that list. The two transition containers of a segment hold
    \<^verbatim>\<open>Transition\<close> objects by value, so the address of a transition is its place:
    (segment, forward list?, index).
  \<^item> \<^verbatim>\<open>nodes\<close> is a \<^verbatim>\<open>std::map\<close> from transition addresses to nodes; a \<^verbatim>\<open>Node*\<close> is the
    key of the node in that map.
  \<^item> An exception or a null dereference is a value \<open>Inl e\<close>; a loop that need not
    terminate takes fuel and answers \<open>None\<close> when the fuel is used up.
  \<^item> \<^verbatim>\<open>front()\<close> and \<^verbatim>\<open>back()\<close> of an empty polyline and a segment pointer that
    leaves the course have no defined behaviour in C++. The model reads them with
    \<open>hd\<close>, \<open>last\<close> and \<open>!\<close>; the courses of the examples have no empty polyline and
    no such pointer.
  \<^item> Log output is left out, except for the warning of \<^verbatim>\<open>isSegmentForward\<close>.
\<close>

subsection \<open>Plane geometry\<close>

type_synonym vec2 = "real \<times> real"

definition vsub :: "vec2 \<Rightarrow> vec2 \<Rightarrow> vec2" where
  "vsub a b = (fst a - fst b, snd a - snd b)"

definition vadd :: "vec2 \<Rightarrow> vec2 \<Rightarrow> vec2" where
  "vadd a b = (fst a + fst b, snd a + snd b)"

definition dot :: "vec2 \<Rightarrow> vec2 \<Rightarrow> real" where
  "dot a b = fst a * fst b + snd a * snd b"

definition norm2 :: "vec2 \<Rightarrow> real" where
  "norm2 v = sqrt (fst v * fst v + snd v * snd v)"

text \<open>\<^verbatim>\<open>std::atan2(y, x)\<close> on reals.\<close>

definition atan2 :: "real \<Rightarrow> real \<Rightarrow> real" where
  "atan2 y x =
     (if 0 < x then arctan (y / x)
      else if x < 0 then (if 0 \<le> y then arctan (y / x) + pi else arctan (y / x) - pi)
      else if 0 < y then pi / 2
      else if y < 0 then - (pi / 2)
      else 0)"

text \<open>\<^verbatim>\<open>std::numeric_limits<double>::epsilon()\<close>.\<close>

definition epsilon :: real where
  "epsilon = 1 / 2 ^ 52"

subsection \<open>Costs with infinity\<close>

datatype xreal = Fin real | PInf

fun xless :: "xreal \<Rightarrow> xreal \<Rightarrow> bool" where
  "xless (Fin a) (Fin b) = (a < b)"
| "xless (Fin a) PInf = True"
| "xless PInf b = False"

fun xadd :: "xreal \<Rightarrow> real \<Rightarrow> xreal" where
  "xadd (Fin a) r = Fin (a + r)"
| "xadd PInf r = PInf"

subsection \<open>Data model\<close>

type_synonym sid = nat

type_synonym tid = "sid \<times> bool \<times> nat"

text \<open>
  The structures \<^verbatim>\<open>Transition\<close>, \<^verbatim>\<open>Segment\<close> and \<^verbatim>\<open>Node\<close> are declared in headers;
  the fields below are the ones search.cpp reads. \<^verbatim>\<open>arc_length()\<close> is a derived
  quantity of the transition, taken as data here. A new \<^verbatim>\<open>Node\<close> has no predecessor,
  no successor and the cost \<^verbatim>\<open>+infinity\<close>. The member \<^verbatim>\<open>next\<close> is called \<open>nxt\<close>, and
  the members \<^verbatim>\<open>pos_\<close> and \<^verbatim>\<open>theta_\<close> of a pose \<open>pose_pos\<close> and \<open>pose_theta\<close>.
\<close>

record Transition =
  source :: sid
  target :: sid
  path :: "vec2 list"
  arc_length :: real

record Segment =
  line_start :: vec2
  line_end :: vec2
  forward_transitions :: "Transition list"
  backward_transitions :: "Transition list"

type_synonym Course = "Segment list"

record PathPose =
  pose_pos :: vec2
  pose_theta :: real

record Node =
  transition :: tid
  curve_forward :: bool
  next_segment :: sid
  prev :: "tid option"
  nxt :: "tid option"
  cost :: xreal

record Params =
  backward_penalty_factor :: real
  turning_penalty :: real
  turning_straight_segment :: real

record Search =
  start_segment :: sid
  end_segment :: sid
  start_pt :: vec2
  end_pt :: vec2
  start_appendix :: "PathPose list"
  end_appendix :: "PathPose list"
  min_cost :: xreal
  best_path :: "PathPose list"
  nodes :: "tid \<rightharpoonup> Node"

datatype error = OutOfRange | NullDereference

text \<open>Reading a transition through its address, and a node through a \<^verbatim>\<open>Node*\<close>.\<close>

definition transitions_of :: "Course \<Rightarrow> sid \<Rightarrow> bool \<Rightarrow> Transition list" where
  "transitions_of G s f =
     (if f then forward_transitions (G ! s) else backward_transitions (G ! s))"

definition transition_at :: "Course \<Rightarrow> tid \<Rightarrow> Transition" where
  "transition_at G t = transitions_of G (fst t) (fst (snd t)) ! snd (snd t)"

definition deref :: "Search \<Rightarrow> tid \<Rightarrow> Node" where
  "deref st p = the (nodes st p)"

text \<open>
  The addresses met by the two nested loops
  \<^verbatim>\<open>for(i = 0; i <= 1; ++i) for(const Transition& t : (i == 0 ? forward : backward))\<close>
  over the transition lists of a segment, in the order of the iteration.
\<close>

definition transition_addresses :: "Course \<Rightarrow> sid \<Rightarrow> tid list" where
  "transition_addresses G s =
     map (\<lambda>i. (s, True, i)) [0..<length (forward_transitions (G ! s))] @
     map (\<lambda>i. (s, False, i)) [0..<length (backward_transitions (G ! s))]"

subsection \<open>Points on the segment after a transition\<close>

definition findStartPointOnNextSegment_tr :: "Node \<Rightarrow> Transition \<Rightarrow> vec2" where
  "findStartPointOnNextSegment_tr node tr =
     (if curve_forward node then last (path tr) else hd (path tr))"

definition findStartPointOnNextSegment :: "Course \<Rightarrow> Search \<Rightarrow> Node \<Rightarrow> vec2" where
  "findStartPointOnNextSegment G st node =
     (if next_segment node = start_segment st then start_pt st
      else findStartPointOnNextSegment_tr node (transition_at G (transition node)))"

definition findEndPointOnSegment :: "Node \<Rightarrow> Transition \<Rightarrow> vec2" where
  "findEndPointOnSegment node tr =
     (if curve_forward node then hd (path tr) else last (path tr))"

definition findEndPointOnNextSegment :: "Course \<Rightarrow> Search \<Rightarrow> Node \<Rightarrow> vec2" where
  "findEndPointOnNextSegment G st node =
     (if next_segment node = end_segment st then end_pt st
      else (case nxt node of
              None \<Rightarrow>
                (if curve_forward node then line_end (G ! next_segment node)
                 else line_start (G ! next_segment node))
            | Some p \<Rightarrow>
                (let next_node = deref st p
                 in findEndPointOnSegment next_node (transition_at G (transition next_node)))))"

subsection \<open>Direction of travel\<close>

text \<open>
  \<^verbatim>\<open>isSegmentForward\<close> logs a warning when the movement vector is short and returns the
  sign test of the dot product. The pair holds the returned value and whether the
  warning was logged.
\<close>

definition isSegmentForward_log :: "Segment \<Rightarrow> vec2 \<Rightarrow> vec2 \<Rightarrow> bool \<times> bool" where
  "isSegmentForward_log segment pos tgt =
     (let segment_dir = vsub (line_end segment) (line_start segment);
          move_dir = vsub tgt pos;
          warned = (norm2 move_dir < 1 / 10)
      in (0 \<le> dot segment_dir move_dir, warned))"

definition isSegmentForward :: "Segment \<Rightarrow> vec2 \<Rightarrow> vec2 \<Rightarrow> bool" where
  "isSegmentForward segment pos tgt = fst (isSegmentForward_log segment pos tgt)"

definition isStartSegmentForward :: "Course \<Rightarrow> Search \<Rightarrow> Node \<Rightarrow> bool" where
  "isStartSegmentForward G st node =
     isSegmentForward (G ! start_segment st) (start_pt st)
       (findEndPointOnSegment node (transition_at G (transition node)))"

definition isNextSegmentForward :: "Course \<Rightarrow> Search \<Rightarrow> Node \<Rightarrow> bool" where
  "isNextSegmentForward G st node =
     isSegmentForward (G ! next_segment node)
       (findStartPointOnNextSegment G st node) (findEndPointOnNextSegment G st node)"

definition isPreviousSegmentForward :: "Course \<Rightarrow> Search \<Rightarrow> Node \<Rightarrow> bool" where
  "isPreviousSegmentForward G st node =
     (case prev node of
        Some p \<Rightarrow> isNextSegmentForward G st (deref st p)
      | None \<Rightarrow> isStartSegmentForward G st node)"

definition effectiveLengthOfNextSegment :: "Course \<Rightarrow> Search \<Rightarrow> Node \<Rightarrow> real" where
  "effectiveLengthOfNextSegment G st node =
     norm2 (vsub (findStartPointOnNextSegment G st node) (findEndPointOnNextSegment G st node))"

subsection \<open>Cost model\<close>

definition calculateStraightCost ::
  "Params \<Rightarrow> Course \<Rightarrow> Search \<Rightarrow> Node \<Rightarrow> vec2 \<Rightarrow> vec2 \<Rightarrow> real" where
  "calculateStraightCost P G st node start_point_on_segment end_point_on_segment =
     (let cost0 = 0;
          segment_forward =
            isSegmentForward (G ! next_segment node) start_point_on_segment end_point_on_segment;
          distance_to_end = norm2 (vsub end_point_on_segment start_point_on_segment);
          cost1 = (if segment_forward then cost0 + distance_to_end
                   else cost0 + backward_penalty_factor P * distance_to_end);
          prev_segment_forward = isPreviousSegmentForward G st node
      in if prev_segment_forward \<noteq> segment_forward
         then (cost1 + turning_straight_segment P) + turning_penalty P
         else if segment_forward \<noteq> curve_forward node
         then (cost1 + 2 * turning_straight_segment P) + 2 * turning_penalty P
         else cost1)"

definition calculateCurveCost :: "Params \<Rightarrow> Course \<Rightarrow> Node \<Rightarrow> real" where
  "calculateCurveCost P G node =
     (if curve_forward node then arc_length (transition_at G (transition node))
      else backward_penalty_factor P * arc_length (transition_at G (transition node)))"

subsection \<open>Rendering a curve\<close>

text \<open>
  The two loops of \<^verbatim>\<open>insertCurveSegment\<close>. The forward loop counts \<open>j\<close> from 1 up to
  \<open>m - 1\<close>; the argument \<open>k\<close> is the number of iterations left. The backward loop counts
  \<open>j\<close> from \<open>m - 2\<close> down to 0 on \<^verbatim>\<open>int\<close>; here the argument is \<open>j + 1\<close>.
\<close>

fun curve_loop_forward :: "vec2 list \<Rightarrow> nat \<Rightarrow> nat \<Rightarrow> PathPose list \<Rightarrow> PathPose list" where
  "curve_loop_forward pts j 0 res = res"
| "curve_loop_forward pts j (Suc k) res =
     (let pt = pts ! j;
          prev_pt = pts ! (j - 1);
          delta = vsub pt prev_pt;
          c_yaw = atan2 (snd delta) (fst delta)
      in curve_loop_forward pts (Suc j) k (res @ [\<lparr>pose_pos = pt, pose_theta = c_yaw\<rparr>]))"

fun curve_loop_backward :: "vec2 list \<Rightarrow> nat \<Rightarrow> PathPose list \<Rightarrow> PathPose list" where
  "curve_loop_backward pts 0 res = res"
| "curve_loop_backward pts (Suc j) res =
     (let pt = pts ! j;
          next_pt = pts ! (j + 1);
          delta = vsub pt next_pt;
          c_yaw = atan2 (snd delta) (fst delta)
      in curve_loop_backward pts j (res @ [\<lparr>pose_pos = pt, pose_theta = c_yaw\<rparr>]))"

definition insertCurveSegment :: "Course \<Rightarrow> PathPose list \<Rightarrow> Node \<Rightarrow> PathPose list" where
  "insertCurveSegment G res current_node =
     (let current_transition = transition_at G (transition current_node);
          m = length (path current_transition)
      in if curve_forward current_node
         then curve_loop_forward (path current_transition) 1 (m - 1) res
         else curve_loop_backward (path current_transition) (m - 1) res)"

text \<open>
  The poses of a polyline walked in the order given: one pose for each point but the
  first, headed from the point before it.
\<close>

fun poses_along :: "vec2 list \<Rightarrow> PathPose list" where
  "poses_along [] = []"
| "poses_along [p] = []"
| "poses_along (p # q # ps) =
     \<lparr>pose_pos = q, pose_theta = atan2 (snd (vsub q p)) (fst (vsub q p))\<rparr> # poses_along (q # ps)"

subsection \<open>Extension stubs and boundary poses\<close>

definition insertFirstNode :: "Course \<Rightarrow> Search \<Rightarrow> PathPose list \<Rightarrow> PathPose list" where
  "insertFirstNode G st res =
     (let pos = start_pt st;
          delta = vsub (line_end (G ! start_segment st)) (line_start (G ! start_segment st));
          yaw = atan2 (snd delta) (fst delta)
      in res @ [\<lparr>pose_pos = pos, pose_theta = yaw\<rparr>])"

definition insertLastNode :: "Course \<Rightarrow> Search \<Rightarrow> PathPose list \<Rightarrow> PathPose list" where
  "insertLastNode G st res =
     (let pos = end_pt st;
          delta = vsub (line_end (G ! end_segment st)) (line_start (G ! end_segment st));
          yaw = atan2 (snd delta) (fst delta)
      in res @ [\<lparr>pose_pos = pos, pose_theta = yaw\<rparr>])"

text \<open>The product of the rotation matrix of angle \<open>a\<close> with a vector.\<close>

definition rotate :: "real \<Rightarrow> vec2 \<Rightarrow> vec2" where
  "rotate a v = (cos a * fst v + (- sin a) * snd v, sin a * fst v + cos a * snd v)"

definition extendAlongTargetSegment ::
  "Params \<Rightarrow> Course \<Rightarrow> PathPose list \<Rightarrow> Node \<Rightarrow> PathPose list" where
  "extendAlongTargetSegment P G res current_node =
     (let current_transition = transition_at G (transition current_node);
          pt = last (path current_transition);
          ep = line_end (G ! target current_transition);
          sp = line_start (G ! target current_transition);
          delta = vsub ep sp;
          c_yaw = atan2 (snd delta) (fst delta);
          offset = (turning_straight_segment P, 0);
          pt' = vadd pt (rotate c_yaw offset)
      in res @ [\<lparr>pose_pos = pt', pose_theta = c_yaw\<rparr>])"

definition extendAlongSourceSegment ::
  "Params \<Rightarrow> Course \<Rightarrow> PathPose list \<Rightarrow> Node \<Rightarrow> PathPose list" where
  "extendAlongSourceSegment P G res current_node =
     (let current_transition = transition_at G (transition current_node);
          pt = hd (path current_transition);
          ep = line_end (G ! source current_transition);
          sp = line_start (G ! source current_transition);
          delta = vsub ep sp;
          c_yaw = atan2 (snd delta) (fst delta) + pi;
          offset = (turning_straight_segment P, 0);
          pt' = vadd pt (rotate c_yaw offset)
      in res @ [\<lparr>pose_pos = pt', pose_theta = c_yaw\<rparr>])"

text \<open>
  When \<open>pt\<close> is the position of the last pose, \<^verbatim>\<open>dir.norm()\<close> is zero and the pose
  the code appends is not a number; the reals have no such value, and the quotient is 0
  here. No property below reaches that case.
\<close>

definition extendWithStraightTurningSegment ::
  "Params \<Rightarrow> PathPose list \<Rightarrow> vec2 \<Rightarrow> PathPose list" where
  "extendWithStraightTurningSegment P res pt =
     (let prev_pt = pose_pos (last res);
          dir = vsub pt prev_pt;
          offset = (fst dir / norm2 dir * turning_straight_segment P,
                    snd dir / norm2 dir * turning_straight_segment P);
          pos = vadd pt offset
      in res @ [\<lparr>pose_pos = pos, pose_theta = atan2 (snd dir) (fst dir)\<rparr>])"

subsection \<open>Assembling the path of a node chain\<close>

text \<open>
  One iteration of the loop of \<^verbatim>\<open>generatePath\<close>; the state of the loop is the pose
  sequence and the flag \<^verbatim>\<open>segment_forward\<close>.
\<close>

definition generatePath_step ::
  "Params \<Rightarrow> Course \<Rightarrow> Search \<Rightarrow> PathPose list \<times> bool \<Rightarrow> tid \<Rightarrow> PathPose list \<times> bool" where
  "generatePath_step P G st acc p =
     (let res = fst acc;
          segment_forward = snd acc;
          current_node = deref st p;
          eff_len = effectiveLengthOfNextSegment G st current_node
      in if eff_len < epsilon then (insertCurveSegment G res current_node, segment_forward)
         else
           (let next_segment_forward = isNextSegmentForward G st current_node;
                res' =
                  (if next_segment_forward = segment_forward then
                     (if curve_forward current_node = next_segment_forward
                      then insertCurveSegment G res current_node
                      else
                        (let r1 = (if curve_forward current_node
                                   then extendWithStraightTurningSegment P res
                                          (hd (path (transition_at G (transition current_node))))
                                   else extendWithStraightTurningSegment P res
                                          (last (path (transition_at G (transition current_node)))));
                             r2 = insertCurveSegment G r1 current_node
                         in if curve_forward current_node
                            then extendAlongTargetSegment P G r2 current_node
                            else extendAlongSourceSegment P G r2 current_node))
                   else if segment_forward then
                     (if curve_forward current_node
                      then extendAlongTargetSegment P G
                             (insertCurveSegment G res current_node) current_node
                      else insertCurveSegment G
                             (extendAlongTargetSegment P G res current_node) current_node)
                   else
                     (if curve_forward current_node
                      then insertCurveSegment G
                             (extendAlongSourceSegment P G res current_node) current_node
                      else extendAlongSourceSegment P G
                             (insertCurveSegment G res current_node) current_node))
            in (res', next_segment_forward)))"

definition generatePath ::
  "Params \<Rightarrow> Course \<Rightarrow> Search \<Rightarrow> tid list \<Rightarrow> PathPose list \<Rightarrow> PathPose list" where
  "generatePath P G st path_transitions res =
     (let res1 = insertFirstNode G st res;
          segment_forward = isStartSegmentForward G st (deref st (hd path_transitions));
          acc = foldl (generatePath_step P G st) (res1, segment_forward) path_transitions
      in insertLastNode G st (fst acc))"

subsection \<open>The frontier\<close>

text \<open>
  The frontier is a \<^verbatim>\<open>std::set<Node*>\<close> ordered by \<^verbatim>\<open>comp\<close>, which compares the costs
  the nodes have at the moment of the comparison. Two nodes neither of which is cheaper
  than the other are the same key for the set. The set is modelled by the list of its
  elements in the order of iteration, and its operations by the search for the first
  element that is not cheaper than the key. This is what the set does as long as the
  order of its elements agrees with their costs. The loop lowers the cost of a node
  before it looks the node up in the set; when that puts the order of the set at odds
  with the costs, the answers of the set depend on the shape of its tree, and the list
  does not tell them. No property below rests on the frontier in that situation: the
  examples never lower the cost of a queued node, and the properties of costs over a run
  are stated for every order in which nodes can be taken.
\<close>

definition comp :: "Search \<Rightarrow> tid \<Rightarrow> tid \<Rightarrow> bool" where
  "comp st lhs rhs = xless (cost (deref st lhs)) (cost (deref st rhs))"

fun set_insert :: "('a \<Rightarrow> 'a \<Rightarrow> bool) \<Rightarrow> 'a \<Rightarrow> 'a list \<Rightarrow> 'a list" where
  "set_insert lt k [] = [k]"
| "set_insert lt k (e # q) =
     (if lt k e then k # e # q
      else if lt e k then e # set_insert lt k q
      else e # q)"

fun set_find :: "('a \<Rightarrow> 'a \<Rightarrow> bool) \<Rightarrow> 'a \<Rightarrow> 'a list \<Rightarrow> bool" where
  "set_find lt k [] = False"
| "set_find lt k (e # q) =
     (if lt k e then False
      else if lt e k then set_find lt k q
      else True)"

fun set_erase :: "('a \<Rightarrow> 'a \<Rightarrow> bool) \<Rightarrow> 'a \<Rightarrow> 'a list \<Rightarrow> 'a list" where
  "set_erase lt k [] = []"
| "set_erase lt k (e # q) =
     (if lt k e then e # q
      else if lt e k then e # set_erase lt k q
      else q)"

subsection \<open>Loops that can throw\<close>

fun for_each :: "('a \<Rightarrow> 's \<Rightarrow> error + 's) \<Rightarrow> 'a list \<Rightarrow> 's \<Rightarrow> error + 's" where
  "for_each f [] s = Inr s"
| "for_each f (x # xs) s =
     (case f x s of Inl e \<Rightarrow> Inl e | Inr s' \<Rightarrow> for_each f xs s')"

subsection \<open>Nodes of a search run\<close>

text \<open>
  \<^verbatim>\<open>nodes[&t]\<close> creates a new node when the key is absent; the three assignments of
  \<^verbatim>\<open>initNodes\<close> then set its transition, its direction and its resulting segment.
\<close>

definition new_node :: "tid \<Rightarrow> bool \<Rightarrow> sid \<Rightarrow> Node" where
  "new_node t cf ns =
     \<lparr>transition = t, curve_forward = cf, next_segment = ns,
      prev = None, nxt = None, cost = PInf\<rparr>"

definition initNode :: "Course \<Rightarrow> tid \<Rightarrow> (tid \<rightharpoonup> Node) \<Rightarrow> (tid \<rightharpoonup> Node)" where
  "initNode G t m =
     (let cf = fst (snd t);
          ns = (if cf then target (transition_at G t) else source (transition_at G t))
      in m(t \<mapsto> (case m t of
                    None \<Rightarrow> new_node t cf ns
                  | Some n \<Rightarrow> n\<lparr>transition := t, curve_forward := cf, next_segment := ns\<rparr>)))"

definition initNodes :: "Course \<Rightarrow> Search \<Rightarrow> Search" where
  "initNodes G st =
     st\<lparr>nodes := fold (\<lambda>s m. fold (initNode G) (transition_addresses G s) m)
                    [0..<length G] Map.empty\<rparr>"

subsection \<open>Seeding the frontier\<close>

definition enqueue_step ::
  "Params \<Rightarrow> Course \<Rightarrow> tid \<Rightarrow> Search \<times> tid list \<Rightarrow> error + Search \<times> tid list" where
  "enqueue_step P G t sq =
     (let st = fst sq; queue = snd sq
      in case nodes st t of
           None \<Rightarrow> Inl OutOfRange
         | Some node \<Rightarrow>
             (let next_transition = transition_at G t;
                  end_point_on_segment =
                    (if curve_forward node then hd (path next_transition)
                     else last (path next_transition));
                  c = calculateStraightCost P G st node (start_pt st) end_point_on_segment;
                  st' = st\<lparr>nodes := (nodes st)(t \<mapsto> node\<lparr>cost := Fin c\<rparr>)\<rparr>
              in Inr (st', set_insert (comp st') t queue)))"

definition enqueueStartingNodes ::
  "Params \<Rightarrow> Course \<Rightarrow> Search \<times> tid list \<Rightarrow> error + Search \<times> tid list" where
  "enqueueStartingNodes P G sq =
     for_each (enqueue_step P G) (transition_addresses G (start_segment (fst sq))) sq"

subsection \<open>Relaxation\<close>

text \<open>
  The body of the inner loop of \<^verbatim>\<open>performDijkstraSearch\<close> for the node
  \<^verbatim>\<open>current_node\<close> and the transition at address \<open>t\<close>. The node behind
  \<^verbatim>\<open>current_node\<close> is read again at every iteration, since the loop writes to it.
\<close>

definition relax_step ::
  "Params \<Rightarrow> Course \<Rightarrow> tid \<Rightarrow> tid \<Rightarrow> Search \<times> tid list \<Rightarrow> error + Search \<times> tid list" where
  "relax_step P G current t sq =
     (let st = fst sq; queue = snd sq
      in case nodes st t of
           None \<Rightarrow> Inl OutOfRange
         | Some neighbor \<Rightarrow>
             (let current_node = deref st current;
                  curve_cost = calculateCurveCost P G current_node;
                  straight_cost =
                    calculateStraightCost P G st current_node
                      (findStartPointOnNextSegment G st current_node)
                      (findEndPointOnSegment current_node (transition_at G t));
                  new_cost = xadd (xadd (cost current_node) curve_cost) straight_cost
              in if xless new_cost (cost neighbor) then
                   (let st1 = st\<lparr>nodes := (nodes st)(t \<mapsto> neighbor\<lparr>prev := Some current\<rparr>)\<rparr>;
                        st2 = st1\<lparr>nodes := (nodes st1)(current \<mapsto> (deref st1 current)\<lparr>nxt := Some t\<rparr>)\<rparr>;
                        st3 = st2\<lparr>nodes := (nodes st2)(t \<mapsto> (deref st2 t)\<lparr>cost := new_cost\<rparr>)\<rparr>;
                        queue1 = (if set_find (comp st3) t queue
                                  then set_erase (comp st3) t queue else queue)
                    in Inr (st3, set_insert (comp st3) t queue1))
                 else Inr (st, queue)))"

definition relax_neighbors ::
  "Params \<Rightarrow> Course \<Rightarrow> tid \<Rightarrow> Search \<times> tid list \<Rightarrow> error + Search \<times> tid list" where
  "relax_neighbors P G current sq =
     for_each (relax_step P G current)
       (transition_addresses G (next_segment (deref (fst sq) current))) sq"

subsection \<open>Path candidates\<close>

text \<open>
  The loop of \<^verbatim>\<open>generatePathCandidate\<close> that walks the predecessor links from the
  node to a node without predecessor, pushes the nodes to the front of a deque and
  repairs the successor links. The walk does not end when the links form a cycle.
\<close>

fun walk_chain ::
  "nat \<Rightarrow> Search \<Rightarrow> tid option \<Rightarrow> tid list \<Rightarrow> (tid list \<times> Search) option" where
  "walk_chain fuel st None transitions = Some (transitions, st)"
| "walk_chain 0 st (Some tmp) transitions = None"
| "walk_chain (Suc fuel) st (Some tmp) transitions =
     (let st' = (case prev (deref st tmp) of
                   None \<Rightarrow> st
                 | Some p \<Rightarrow> st\<lparr>nodes := (nodes st)(p \<mapsto> (deref st p)\<lparr>nxt := Some tmp\<rparr>)\<rparr>)
      in walk_chain fuel st' (prev (deref st' tmp)) (tmp # transitions))"

definition generatePathCandidate ::
  "nat \<Rightarrow> Params \<Rightarrow> Course \<Rightarrow> Search \<Rightarrow> tid \<Rightarrow> Search option" where
  "generatePathCandidate fuel P G st p =
     (let node = deref st p;
          additional_cost =
            calculateStraightCost P G st node (findStartPointOnNextSegment G st node) (end_pt st);
          st1 = st\<lparr>nodes := (nodes st)(p \<mapsto> node\<lparr>cost := xadd (cost node) additional_cost\<rparr>)\<rparr>
      in if xless (cost (deref st1 p)) (min_cost st1) then
           (let st2 = st1\<lparr>min_cost := cost (deref st1 p), best_path := []\<rparr>
            in case walk_chain fuel st2 (Some p) [] of
                 None \<Rightarrow> None
               | Some (transitions, st3) \<Rightarrow>
                   Some (st3\<lparr>best_path := generatePath P G st3 transitions (best_path st3)\<rparr>))
         else Some st1)"

subsection \<open>The search\<close>

definition combine :: "PathPose list \<Rightarrow> PathPose list \<Rightarrow> PathPose list \<Rightarrow> PathPose list" where
  "combine start centre end_part =
     (if start = [] \<and> end_part = [] then centre else (start @ centre) @ end_part)"

text \<open>
  The \<^verbatim>\<open>while(!queue.empty())\<close> loop. The first argument bounds the number of
  iterations, the second the walks along predecessor links.
\<close>

fun dijkstra_loop ::
  "nat \<Rightarrow> nat \<Rightarrow> Params \<Rightarrow> Course \<Rightarrow> Search \<Rightarrow> tid list \<Rightarrow> (error + Search) option" where
  "dijkstra_loop k fuel P G st [] = Some (Inr st)"
| "dijkstra_loop 0 fuel P G st (current # queue) = None"
| "dijkstra_loop (Suc k) fuel P G st (current # queue) =
     (if next_segment (deref st current) = end_segment st then
        (case generatePathCandidate fuel P G st current of
           None \<Rightarrow> None
         | Some st' \<Rightarrow> dijkstra_loop k fuel P G st' queue)
      else
        (case relax_neighbors P G current (st, queue) of
           Inl e \<Rightarrow> Some (Inl e)
         | Inr sq \<Rightarrow> dijkstra_loop k fuel P G (fst sq) (snd sq)))"

definition performDijkstraSearch ::
  "nat \<Rightarrow> Params \<Rightarrow> Course \<Rightarrow> Search \<Rightarrow> (error + PathPose list \<times> Search) option" where
  "performDijkstraSearch fuel P G st =
     (case enqueueStartingNodes P G (initNodes G st, []) of
        Inl e \<Rightarrow> Some (Inl e)
      | Inr sq \<Rightarrow>
          (case dijkstra_loop fuel fuel P G ((fst sq)\<lparr>min_cost := PInf\<rparr>) (snd sq) of
             None \<Rightarrow> None
           | Some (Inl e) \<Rightarrow> Some (Inl e)
           | Some (Inr st') \<Rightarrow>
               Some (Inr (combine (start_appendix st') (best_path st') (end_appendix st'), st'))))"

subsection \<open>Runs of the loop body\<close>

text \<open>
  Which node the loop takes next is decided by the frontier. \<open>run_dequeued\<close> applies
  the body of the loop to the nodes of a list, one after the other, whatever the frontier
  would have handed out; the frontier itself is left out, since the body does not read
  it to change the planner. Every run of \<open>dijkstra_loop\<close> is such a run.
  \<open>prev_chain_ends k st p\<close> says that the predecessor links from \<open>p\<close> reach a node
  without predecessor within \<open>k\<close> nodes: the walk of \<^verbatim>\<open>generatePathCandidate\<close> ends.
\<close>

fun prev_chain_ends :: "nat \<Rightarrow> Search \<Rightarrow> tid option \<Rightarrow> bool" where
  "prev_chain_ends k st None = True"
| "prev_chain_ends 0 st (Some p) = False"
| "prev_chain_ends (Suc k) st (Some p) = prev_chain_ends k st (prev (deref st p))"

fun run_dequeued ::
  "nat \<Rightarrow> Params \<Rightarrow> Course \<Rightarrow> Search \<Rightarrow> tid list \<Rightarrow> (error + Search) option" where
  "run_dequeued fuel P G st [] = Some (Inr st)"
| "run_dequeued fuel P G st (current # rest) =
     (if next_segment (deref st current) = end_segment st then
        (case generatePathCandidate fuel P G st current of
           None \<Rightarrow> None
         | Some st' \<Rightarrow> run_dequeued fuel P G st' rest)
      else
        (case relax_neighbors P G current (st, []) of
           Inl e \<Rightarrow> Some (Inl e)
         | Inr sq \<Rightarrow> run_dequeued fuel P G (fst sq) rest))"

subsection \<open>Connecting the poses to the course\<close>

text \<open>
  The map service, the grid pathfinders, the grid map and the course generator are
  collaborators outside search.cpp. What one call of \<^verbatim>\<open>findPath\<close> gets from them is a
  record: whether the map service call succeeded, the conversions of the grid map, the
  four pathfinders (already applied to the map and the goal test), the closest-segment
  lookup of the generator and the projection of a point on the line of a segment.
  \<^verbatim>\<open>initMaps\<close> only prepares the grid map for the pathfinders and is part of them here.
\<close>

type_synonym Pose2d = "real \<times> real \<times> real"

type_synonym 'c NodeT = "'c \<times> 'c \<times> real"

record 'c Env =
  map_service_call :: bool
  point2cell :: "real \<Rightarrow> real \<Rightarrow> nat \<times> nat"
  cell2pointSubPixel :: "'c \<Rightarrow> 'c \<Rightarrow> real \<times> real"
  AStarPatsyForward :: "Pose2d \<Rightarrow> 'c NodeT list"
  AStarPatsyForwardTurning :: "Pose2d \<Rightarrow> 'c NodeT list"
  AStarPatsyReversed :: "Pose2d \<Rightarrow> 'c NodeT list"
  AStarPatsyReversedTurning :: "Pose2d \<Rightarrow> 'c NodeT list"
  findClosestSegment :: "PathPose \<Rightarrow> real \<Rightarrow> real \<Rightarrow> sid option"
  nearestPointTo :: "Segment \<Rightarrow> vec2 \<Rightarrow> vec2"

definition convertToWorld :: "'c Env \<Rightarrow> 'c NodeT \<Rightarrow> PathPose" where
  "convertToWorld env node =
     (let tmp = cell2pointSubPixel env (fst node) (fst (snd node))
      in \<lparr>pose_pos = (fst tmp, snd tmp), pose_theta = snd (snd node)\<rparr>)"

definition convertToMap :: "'c Env \<Rightarrow> PathPose \<Rightarrow> Pose2d" where
  "convertToMap env pt =
     (let tmp = point2cell env (fst (pose_pos pt)) (snd (pose_pos pt))
      in (real (fst tmp), real (snd tmp), pose_theta pt))"

definition findAppendix ::
  "'c Env \<Rightarrow> (Pose2d \<Rightarrow> 'c NodeT list) \<Rightarrow> (Pose2d \<Rightarrow> 'c NodeT list) \<Rightarrow> PathPose \<Rightarrow> PathPose list" where
  "findAppendix env algo_forward algo_forward_turn pose =
     (let pose_map = convertToMap env pose;
          path_start = algo_forward pose_map
      in if path_start = [] then
           (let path_start' = algo_forward_turn pose_map
            in if path_start' = [] then [] else map (convertToWorld env) path_start')
         else map (convertToWorld env) path_start)"

text \<open>
  \<^verbatim>\<open>findAppendices\<close> reads \<^verbatim>\<open>start_segment->line\<close> before it tests the pointer, and
  likewise for the end segment: a lookup without result is a null dereference.
\<close>

definition findAppendices ::
  "'c Env \<Rightarrow> Course \<Rightarrow> Search \<Rightarrow> PathPose \<Rightarrow> PathPose \<Rightarrow> error + bool \<times> Search" where
  "findAppendices env G st start_pose end_pose =
     (let st1 = st\<lparr>start_appendix :=
                     findAppendix env (AStarPatsyForward env) (AStarPatsyForwardTurning env) start_pose\<rparr>
      in if start_appendix st1 = [] then Inr (False, st1)
         else
           (let start = last (start_appendix st1)
            in case findClosestSegment env start (pi / 8) (1 / 2) of
                 None \<Rightarrow> Inl NullDereference
               | Some s \<Rightarrow>
                   (let st2 = st1\<lparr>start_segment := s,
                                  start_pt := nearestPointTo env (G ! s) (pose_pos start)\<rparr>;
                        st3 = st2\<lparr>end_appendix :=
                                    findAppendix env (AStarPatsyReversed env)
                                      (AStarPatsyReversedTurning env) end_pose\<rparr>
                    in if end_appendix st3 = [] then Inr (False, st3)
                       else
                         (let st4 = st3\<lparr>end_appendix := rev (end_appendix st3)\<rparr>;
                              end_p = hd (end_appendix st4)
                          in case findClosestSegment env end_p (pi / 8) (1 / 2) of
                               None \<Rightarrow> Inl NullDereference
                             | Some s' \<Rightarrow>
                                 Inr (True,
                                      st4\<lparr>end_segment := s',
                                          end_pt := nearestPointTo env (G ! s') (pose_pos end_p)\<rparr>)))))"

subsection \<open>The planning request\<close>

definition findPath ::
  "nat \<Rightarrow> Params \<Rightarrow> 'c Env \<Rightarrow> Course \<Rightarrow> Search \<Rightarrow> PathPose \<Rightarrow> PathPose \<Rightarrow>
   (error + PathPose list \<times> Search) option" where
  "findPath fuel P env G st start_pose end_pose =
     (let res = []
      in if \<not> map_service_call env then Some (Inr (res, st))
         else
           (case findAppendices env G st start_pose end_pose of
              Inl e \<Rightarrow> Some (Inl e)
            | Inr r \<Rightarrow>
                (if \<not> fst r then Some (Inr (res, snd r))
                 else if start_segment (snd r) = end_segment (snd r) then
                   (let res1 = insertFirstNode G (snd r) res;
                        res2 = insertLastNode G (snd r) res1
                    in Some (Inr (combine (start_appendix (snd r)) res2 (end_appendix (snd r)),
                                  snd r)))
                 else performDijkstraSearch fuel P G (snd r))))"

subsection \<open>Observing a planning request\<close>

text \<open>The pose sequence a request returns, and the planner state it leaves behind.\<close>

definition returned ::
  "(error + PathPose list \<times> Search) option \<Rightarrow> (error + PathPose list) option" where
  "returned r = map_option (map_sum id fst) r"

definition state_after :: "Search \<Rightarrow> (error + PathPose list \<times> Search) option \<Rightarrow> Search" where
  "state_after st r = (case r of Some (Inr x) \<Rightarrow> snd x | _ \<Rightarrow> st)"

subsection \<open>Example courses\<close>

text \<open>
  A chain of three segments: segment 0 runs from (0,0) to (2,0), segment 1 from (3,1) to
  (3,3), segment 2 from (4,4) to (6,4); one forward transition joins 0 to 1 and one joins
  1 to 2. Segment 2 has no transition.
\<close>

definition ex_course :: Course where
  "ex_course =
     [\<lparr>line_start = (0, 0), line_end = (2, 0),
       forward_transitions =
         [\<lparr>source = 0, target = 1, path = [(2, 0), (3, 0), (3, 1)], arc_length = 2\<rparr>],
       backward_transitions = []\<rparr>,
      \<lparr>line_start = (3, 1), line_end = (3, 3),
       forward_transitions =
         [\<lparr>source = 1, target = 2, path = [(3, 3), (3, 4), (4, 4)], arc_length = 2\<rparr>],
       backward_transitions = []\<rparr>,
      \<lparr>line_start = (4, 4), line_end = (6, 4),
       forward_transitions = [], backward_transitions = []\<rparr>]"

text \<open>
  A fork: segment 0 runs from (0,0) to (2,0) and ends with a left turn into segment 1 and
  a right turn into segment 2; both turns leave segment 0 at (2,0).
\<close>

definition fork_course :: Course where
  "fork_course =
     [\<lparr>line_start = (0, 0), line_end = (2, 0),
       forward_transitions =
         [\<lparr>source = 0, target = 1, path = [(2, 0), (3, 0), (3, 1)], arc_length = 2\<rparr>,
          \<lparr>source = 0, target = 2, path = [(2, 0), (3, 0), (3, - 1)], arc_length = 2\<rparr>],
       backward_transitions = []\<rparr>,
      \<lparr>line_start = (3, 1), line_end = (3, 3),
       forward_transitions = [], backward_transitions = []\<rparr>,
      \<lparr>line_start = (3, - 1), line_end = (3, - 3),
       forward_transitions = [], backward_transitions = []\<rparr>]"

text \<open>The default parameters of the constructor.\<close>

definition ex_params :: Params where
  "ex_params =
     \<lparr>backward_penalty_factor = 5 / 2, turning_penalty = 5, turning_straight_segment = 7 / 10\<rparr>"

text \<open>A planner that has not served a request yet.\<close>

definition fresh_search :: Search where
  "fresh_search =
     \<lparr>start_segment = 0, end_segment = 0, start_pt = (0, 0), end_pt = (0, 0),
      start_appendix = [], end_appendix = [], min_cost = PInf, best_path = [],
      nodes = Map.empty\<rparr>"

text \<open>A planner whose request starts at (0,0) on segment 0 and ends at \<open>p\<close> on segment \<open>e\<close>.\<close>

definition ex_search :: "sid \<Rightarrow> vec2 \<Rightarrow> Search" where
  "ex_search e p = fresh_search\<lparr>end_segment := e, end_pt := p\<rparr>"

definition pose_at :: "real \<Rightarrow> real \<Rightarrow> real \<Rightarrow> PathPose" where
  "pose_at px py th = \<lparr>pose_pos = (px, py), pose_theta = th\<rparr>"

text \<open>
  Collaborators for the examples: the pathfinder for the start pose answers the one grid
  node \<open>a\<close>, the one for the end pose the node \<open>b\<close>, cells are world coordinates, a
  point is its own projection.
\<close>

definition closest_by_x :: "PathPose \<Rightarrow> real \<Rightarrow> real \<Rightarrow> sid option" where
  "closest_by_x p ang tol =
     (if ang = pi / 8 \<and> tol = 1 / 2
      then (if fst (pose_pos p) \<le> 2 then Some 0 else Some 2)
      else None)"

definition ex_env ::
  "int NodeT \<Rightarrow> int NodeT \<Rightarrow> (PathPose \<Rightarrow> real \<Rightarrow> real \<Rightarrow> sid option) \<Rightarrow> int Env" where
  "ex_env a b closest =
     \<lparr>map_service_call = True,
      point2cell = (\<lambda>px py. (0, 0)),
      cell2pointSubPixel = (\<lambda>cx cy. (real_of_int cx, real_of_int cy)),
      AStarPatsyForward = (\<lambda>p. [a]),
      AStarPatsyForwardTurning = (\<lambda>p. []),
      AStarPatsyReversed = (\<lambda>p. [b]),
      AStarPatsyReversedTurning = (\<lambda>p. []),
      findClosestSegment = closest,
      nearestPointTo = (\<lambda>s p. p)\<rparr>"

text \<open>The node of the transition from segment 0 to segment 1 as \<^verbatim>\<open>initNodes\<close> makes it.\<close>

definition ex_node :: Node where
  "ex_node = new_node (0, True, 0) True 1"

text \<open>The chain course after seeding, after the first expansion and after finalization.\<close>

definition ex_seeded :: "Search \<times> tid list" where
  "ex_seeded =
     (case enqueueStartingNodes ex_params ex_course (initNodes ex_course (ex_search 2 (6, 4)), []) of
        Inr sq \<Rightarrow> sq
      | Inl e \<Rightarrow> (fresh_search, []))"

definition ex_relaxed :: "Search \<times> tid list" where
  "ex_relaxed =
     (case relax_neighbors ex_params ex_course (0, True, 0) (fst ex_seeded, []) of
        Inr sq \<Rightarrow> sq
      | Inl e \<Rightarrow> (fresh_search, []))"

definition ex_finalized :: Search where
  "ex_finalized =
     (case generatePathCandidate 2 ex_params ex_course (fst ex_relaxed) (1, True, 0) of
        Some st \<Rightarrow> st
      | None \<Rightarrow> fresh_search)"

text \<open>
  A branch: segment 0 runs from (0,4) to (2,4) and turns into segment 1, which runs from
  (3,1) to (3,9), at (3,5). Segment 1 has an exit ahead at (3,7) into segment 2, which
  runs from (4,8) to (8,8), and an exit behind at (3,3) into segment 3, which runs from
  (4,3) to (8,3). The flag says which of the two exits comes first in the list of
  segment 1. The request starts at (0,4) on segment 0 and ends at (6,8) on segment 2.
\<close>

definition branch_course :: "bool \<Rightarrow> Course" where
  "branch_course ahead_first =
     (let ahead = \<lparr>source = 1, target = 2, path = [(3, 7), (3, 8), (4, 8)], arc_length = 2\<rparr>;
          behind = \<lparr>source = 1, target = 3, path = [(3, 3), (4, 3)], arc_length = 1\<rparr>
      in [\<lparr>line_start = (0, 4), line_end = (2, 4),
           forward_transitions =
             [\<lparr>source = 0, target = 1, path = [(2, 4), (3, 4), (3, 5)], arc_length = 2\<rparr>],
           backward_transitions = []\<rparr>,
          \<lparr>line_start = (3, 1), line_end = (3, 9),
           forward_transitions = (if ahead_first then [ahead, behind] else [behind, ahead]),
           backward_transitions = []\<rparr>,
          \<lparr>line_start = (4, 8), line_end = (8, 8),
           forward_transitions = [], backward_transitions = []\<rparr>,
          \<lparr>line_start = (4, 3), line_end = (8, 3),
           forward_transitions = [], backward_transitions = []\<rparr>])"

definition branch_search :: Search where
  "branch_search = fresh_search\<lparr>start_pt := (0, 4), end_segment := 2, end_pt := (6, 8)\<rparr>"

text \<open>The branch course after seeding and the expansion of the node of the first transition.\<close>

definition branch_relaxed :: "bool \<Rightarrow> Search" where
  "branch_relaxed ahead_first =
     (case enqueueStartingNodes ex_params (branch_course ahead_first)
             (initNodes (branch_course ahead_first) branch_search, []) of
        Inl e \<Rightarrow> fresh_search
      | Inr sq \<Rightarrow>
          (case relax_neighbors ex_params (branch_course ahead_first) (0, True, 0) (fst sq, []) of
             Inl e \<Rightarrow> fresh_search
           | Inr sq' \<Rightarrow> fst sq'))"

section \<open>Properties\<close>

subsection \<open>Auxiliary facts\<close>

lemma norm2_axis: "norm2 (a, 0) = \<bar>a\<bar>" "norm2 (0, b) = \<bar>b\<bar>"
  by (simp_all add: norm2_def)

lemma norm2_vsub_commute: "norm2 (vsub a b) = norm2 (vsub b a)"
proof -
  have "(fst a - fst b) * (fst a - fst b) = (fst b - fst a) * (fst b - fst a)"
    by (simp add: algebra_simps)
  moreover have "(snd a - snd b) * (snd a - snd b) = (snd b - snd a) * (snd b - snd a)"
    by (simp add: algebra_simps)
  ultimately show ?thesis by (simp add: norm2_def vsub_def)
qed

lemma dot_vsub_flip: "dot d (vsub a b) = - dot d (vsub b a)"
  by (simp add: dot_def vsub_def algebra_simps)

text \<open>The unfolding that evaluates the model on the examples.\<close>

lemmas geometry_defs =
  vsub_def vadd_def dot_def norm2_axis atan2_def epsilon_def

lemmas cost_defs =
  calculateStraightCost_def calculateCurveCost_def isSegmentForward_def isSegmentForward_log_def
  isPreviousSegmentForward_def isStartSegmentForward_def isNextSegmentForward_def
  findEndPointOnSegment_def findEndPointOnNextSegment_def findStartPointOnNextSegment_def
  findStartPointOnNextSegment_tr_def effectiveLengthOfNextSegment_def
  deref_def transition_at_def transitions_of_def Let_def

lemmas search_defs =
  performDijkstraSearch_def initNodes_def initNode_def new_node_def transition_addresses_def
  enqueueStartingNodes_def enqueue_step_def relax_neighbors_def relax_step_def comp_def
  generatePathCandidate_def generatePath_def generatePath_step_def insertCurveSegment_def
  insertFirstNode_def insertLastNode_def combine_def upt_rec numeral_2_eq_2

lemmas request_defs =
  findPath_def findAppendices_def findAppendix_def convertToMap_def convertToWorld_def
  returned_def state_after_def

lemmas example_defs =
  ex_course_def fork_course_def ex_params_def fresh_search_def ex_search_def pose_at_def
  closest_by_x_def ex_env_def ex_node_def branch_course_def branch_search_def
  branch_relaxed_def numeral_3_eq_3

text \<open>The order of costs.\<close>

lemma xless_irrefl: "\<not> xless a a"
  by (cases a) auto

lemma xless_asym: "xless a b \<Longrightarrow> \<not> xless b a"
  by (cases a; cases b) auto

lemma not_xless_trans: "\<not> xless a b \<Longrightarrow> \<not> xless b c \<Longrightarrow> \<not> xless a c"
  by (cases a; cases b; cases c) auto

text \<open>What relaxation and the walk along predecessor links do to the cost of a node.\<close>

lemma relax_step_effect:
  assumes "relax_step P G current t (st, queue) = Inr (st', queue')"
    and "nodes st u = Some n"
  shows "end_segment st' = end_segment st \<and>
         (\<exists>n'. nodes st' u = Some n' \<and> \<not> xless (cost n) (cost n') \<and>
               next_segment n' = next_segment n)"
proof (cases "nodes st t")
  case None
  then show ?thesis using assms by (simp add: relax_step_def)
next
  case (Some neighbor)
  let ?new = "xadd (xadd (cost (deref st current)) (calculateCurveCost P G (deref st current)))
     (calculateStraightCost P G st (deref st current)
        (findStartPointOnNextSegment G st (deref st current))
        (findEndPointOnSegment (deref st current) (transition_at G t)))"
  show ?thesis
  proof (cases "xless ?new (cost neighbor)")
    case False
    then have "st' = st" using assms(1) Some by (simp add: relax_step_def Let_def)
    then show ?thesis using assms(2) by (simp add: xless_irrefl)
  next
    case True
    let ?m1 = "(nodes st)(t \<mapsto> neighbor\<lparr>prev := Some current\<rparr>)"
    let ?m2 = "?m1(current \<mapsto> (the (?m1 current))\<lparr>nxt := Some t\<rparr>)"
    from True have st': "nodes st' = ?m2(t \<mapsto> (the (?m2 t))\<lparr>cost := ?new\<rparr>)"
      and es: "end_segment st' = end_segment st"
      using assms(1) Some by (auto simp: relax_step_def Let_def deref_def)
    show ?thesis
    proof (cases "u = t")
      case True
      then have "n = neighbor" using Some assms(2) by simp
      then show ?thesis using True st' es \<open>xless ?new (cost neighbor)\<close> by (simp add: xless_asym)
    next
      case False
      then show ?thesis using st' es assms(2) by (auto simp: xless_irrefl)
    qed
  qed
qed

lemma for_each_relax_effect:
  assumes "for_each (relax_step P G current) ts sq = Inr sq'"
    and "nodes (fst sq) u = Some n"
  shows "end_segment (fst sq') = end_segment (fst sq) \<and>
         (\<exists>n'. nodes (fst sq') u = Some n' \<and> \<not> xless (cost n) (cost n') \<and>
               next_segment n' = next_segment n)"
  using assms
proof (induction ts arbitrary: sq n)
  case Nil
  then show ?case by (simp add: xless_irrefl)
next
  case (Cons t ts)
  obtain mid where mid: "relax_step P G current t sq = Inr mid"
    and rest: "for_each (relax_step P G current) ts mid = Inr sq'"
    using Cons.prems(1) by (auto split: sum.splits)
  from mid have "relax_step P G current t (fst sq, snd sq) = Inr (fst mid, snd mid)" by simp
  from relax_step_effect [OF this Cons.prems(2)]
  obtain m where es: "end_segment (fst mid) = end_segment (fst sq)"
    and m: "nodes (fst mid) u = Some m" "\<not> xless (cost n) (cost m)" "next_segment m = next_segment n"
    by blast
  from Cons.IH [OF rest m(1)]
  obtain n' where es': "end_segment (fst sq') = end_segment (fst mid)"
    and n': "nodes (fst sq') u = Some n'" "\<not> xless (cost m) (cost n')" "next_segment n' = next_segment m"
    by blast
  show ?case using es es' n' m not_xless_trans by metis
qed

lemma relax_neighbors_effect:
  assumes "relax_neighbors P G current (st, queue) = Inr (st', queue')"
    and "nodes st u = Some n"
  shows "end_segment st' = end_segment st \<and>
         (\<exists>n'. nodes st' u = Some n' \<and> \<not> xless (cost n) (cost n') \<and>
               next_segment n' = next_segment n)"
proof -
  have "for_each (relax_step P G current)
      (transition_addresses G (next_segment (deref st current))) (st, queue) = Inr (st', queue')"
    using assms(1) by (simp add: relax_neighbors_def)
  from for_each_relax_effect [OF this, of u n] assms(2) show ?thesis
    by simp
qed

lemma relax_step_any_queue:
  assumes "relax_step P G current t (st, queue) = Inr (st', queue')"
  shows "\<exists>q. relax_step P G current t (st, queue0) = Inr (st', q)"
  using assms by (auto simp: relax_step_def Let_def split: option.splits if_splits)

lemma for_each_relax_any_queue:
  assumes "for_each (relax_step P G current) ts (st, queue) = Inr (st', queue')"
  shows "\<exists>q. for_each (relax_step P G current) ts (st, queue0) = Inr (st', q)"
  using assms
proof (induction ts arbitrary: st queue queue0)
  case Nil
  then show ?case by simp
next
  case (Cons t ts)
  obtain st1 q1 where mid: "relax_step P G current t (st, queue) = Inr (st1, q1)"
    and rest: "for_each (relax_step P G current) ts (st1, q1) = Inr (st', queue')"
    using Cons.prems by (auto split: sum.splits)
  from relax_step_any_queue [OF mid]
  obtain q0 where q0: "relax_step P G current t (st, queue0) = Inr (st1, q0)" by blast
  from Cons.IH [OF rest]
  obtain q where "for_each (relax_step P G current) ts (st1, q0) = Inr (st', q)" by blast
  then show ?case using q0 by auto
qed

lemma walk_chain_effect:
  assumes "walk_chain fuel st tmp acc = Some (ts, st')" and "nodes st u = Some n"
  shows "end_segment st' = end_segment st \<and>
         (\<exists>n'. nodes st' u = Some n' \<and> cost n' = cost n \<and> next_segment n' = next_segment n)"
  using assms
proof (induction fuel st tmp acc arbitrary: n rule: walk_chain.induct)
  case (1 fuel st transitions)
  then show ?case by simp
next
  case (2 st tmp transitions)
  then show ?case by simp
next
  case (3 fuel st tmp transitions)
  let ?st' = "case prev (deref st tmp) of None \<Rightarrow> st
     | Some p \<Rightarrow> st\<lparr>nodes := (nodes st)(p \<mapsto> (deref st p)\<lparr>nxt := Some tmp\<rparr>)\<rparr>"
  have es: "end_segment ?st' = end_segment st"
    by (simp split: option.splits)
  have "\<exists>m. nodes ?st' u = Some m \<and> cost m = cost n \<and> next_segment m = next_segment n"
    using "3.prems"(2) by (auto simp: deref_def split: option.splits)
  then obtain m where m: "nodes ?st' u = Some m" "cost m = cost n" "next_segment m = next_segment n"
    by blast
  have run: "walk_chain fuel ?st' (prev (deref ?st' tmp)) (tmp # transitions) = Some (ts, st')"
    using "3.prems"(1) by (simp add: Let_def)
  from "3.IH" [OF refl run m(1)] m(2,3) es show ?case by auto
qed

lemma candidate_effect:
  assumes "generatePathCandidate fuel P G st p = Some st'" and "nodes st u = Some n"
  shows "end_segment st' = end_segment st \<and>
     (\<exists>n'. nodes st' u = Some n' \<and> next_segment n' = next_segment n \<and>
        cost n' =
          (if u = p
           then xadd (cost n)
                  (calculateStraightCost P G st n (findStartPointOnNextSegment G st n) (end_pt st))
           else cost n))"
proof -
  let ?node = "deref st p"
  let ?c = "xadd (cost ?node)
     (calculateStraightCost P G st ?node (findStartPointOnNextSegment G st ?node) (end_pt st))"
  let ?st1 = "st\<lparr>nodes := (nodes st)(p \<mapsto> ?node\<lparr>cost := ?c\<rparr>)\<rparr>"
  have same: "u = p \<Longrightarrow> ?node = n"
    using assms(2) by (simp add: deref_def)
  have n1: "\<exists>m. nodes ?st1 u = Some m \<and> next_segment m = next_segment n \<and>
      cost m = (if u = p then xadd (cost n)
                  (calculateStraightCost P G st n (findStartPointOnNextSegment G st n) (end_pt st))
                else cost n)"
    using assms(2) same by auto
  show ?thesis
  proof (cases "xless ?c (min_cost st)")
    case False
    then have "st' = ?st1" using assms(1) by (simp add: generatePathCandidate_def Let_def deref_def)
    then show ?thesis using n1 by simp
  next
    case True
    let ?st2 = "?st1\<lparr>min_cost := ?c, best_path := []\<rparr>"
    from True assms(1) obtain ts st3 where w: "walk_chain fuel ?st2 (Some p) [] = Some (ts, st3)"
      and st': "st' = st3\<lparr>best_path := generatePath P G st3 ts (best_path st3)\<rparr>"
      by (auto simp: generatePathCandidate_def Let_def deref_def split: option.splits)
    from n1 obtain m where m: "nodes ?st2 u = Some m" "next_segment m = next_segment n"
      "cost m = (if u = p then xadd (cost n)
                  (calculateStraightCost P G st n (findStartPointOnNextSegment G st n) (end_pt st))
                else cost n)"
      by auto
    from walk_chain_effect [OF w m(1)] m(2,3) st' show ?thesis by auto
  qed
qed

lemma prev_chain_ends_cong:
  assumes "\<And>q. prev (deref st' q) = prev (deref st q)"
  shows "prev_chain_ends k st' p = prev_chain_ends k st p"
  using assms by (induction k st p rule: prev_chain_ends.induct) auto

lemma walk_chain_enough_fuel:
  assumes "prev_chain_ends k st tmp" and "k \<le> fuel"
  shows "walk_chain fuel st tmp acc \<noteq> None"
  using assms
proof (induction k arbitrary: st tmp fuel acc)
  case 0
  then show ?case by (cases tmp) auto
next
  case (Suc k)
  show ?case
  proof (cases tmp)
    case None
    then show ?thesis by simp
  next
    case (Some p)
    obtain f where f: "fuel = Suc f" "k \<le> f"
      using Suc.prems(2) by (cases fuel) auto
    let ?st' = "case prev (deref st p) of None \<Rightarrow> st
       | Some q \<Rightarrow> st\<lparr>nodes := (nodes st)(q \<mapsto> (deref st q)\<lparr>nxt := Some p\<rparr>)\<rparr>"
    have same: "prev (deref ?st' q) = prev (deref st q)" for q
      by (auto simp: deref_def split: option.splits)
    have "prev_chain_ends k st (prev (deref ?st' p))"
      using Suc.prems(1) Some same by simp
    then have "prev_chain_ends k ?st' (prev (deref ?st' p))"
      using prev_chain_ends_cong [of ?st' st k] same by simp
    from Suc.IH [OF this f(2)]
    have "walk_chain f ?st' (prev (deref ?st' p)) (p # acc) \<noteq> None" .
    then show ?thesis using Some f(1) by (simp add: Let_def)
  qed
qed

lemma candidate_enough_fuel:
  assumes "prev_chain_ends k st (Some p)" and "k \<le> fuel"
  shows "generatePathCandidate fuel P G st p \<noteq> None"
proof -
  let ?node = "deref st p"
  let ?c = "xadd (cost ?node)
     (calculateStraightCost P G st ?node (findStartPointOnNextSegment G st ?node) (end_pt st))"
  let ?st2 = "st\<lparr>nodes := (nodes st)(p \<mapsto> ?node\<lparr>cost := ?c\<rparr>), min_cost := ?c, best_path := []\<rparr>"
  have same: "prev (deref ?st2 q) = prev (deref st q)" for q
    by (simp add: deref_def)
  have "prev_chain_ends k ?st2 (Some p)"
    using assms(1) prev_chain_ends_cong [of ?st2 st k] same by simp
  from walk_chain_enough_fuel [OF this assms(2)]
  have "walk_chain fuel ?st2 (Some p) [] \<noteq> None" .
  then show ?thesis
    by (auto simp: generatePathCandidate_def Let_def deref_def split: option.splits)
qed

lemma run_dequeued_effect:
  assumes "run_dequeued fuel P G st cs = Some (Inr st')"
    and "nodes st u = Some n"
    and "u \<notin> set cs \<or> next_segment n \<noteq> end_segment st"
  shows "\<exists>n'. nodes st' u = Some n' \<and> \<not> xless (cost n) (cost n')"
  using assms
proof (induction cs arbitrary: st n)
  case Nil
  then show ?case by (simp add: xless_irrefl)
next
  case (Cons c cs)
  show ?case
  proof (cases "next_segment (deref st c) = end_segment st")
    case True
    then obtain st1 where fin: "generatePathCandidate fuel P G st c = Some st1"
      and rest: "run_dequeued fuel P G st1 cs = Some (Inr st')"
      using Cons.prems(1) by (auto split: option.splits)
    have "u \<noteq> c"
      using Cons.prems(2,3) True by (auto simp: deref_def)
    with candidate_effect [OF fin Cons.prems(2)]
    obtain m where es: "end_segment st1 = end_segment st"
      and m: "nodes st1 u = Some m" "next_segment m = next_segment n" "cost m = cost n"
      by auto
    have "u \<notin> set cs \<or> next_segment m \<noteq> end_segment st1"
      using Cons.prems(3) m(2) es by auto
    from Cons.IH [OF rest m(1) this] m(3) show ?thesis by simp
  next
    case False
    then obtain sq where rel: "relax_neighbors P G c (st, []) = Inr sq"
      and rest: "run_dequeued fuel P G (fst sq) cs = Some (Inr st')"
      using Cons.prems(1) by (auto split: sum.splits)
    from rel have "relax_neighbors P G c (st, []) = Inr (fst sq, snd sq)"
      by simp
    from relax_neighbors_effect [OF this Cons.prems(2)]
    obtain m where es: "end_segment (fst sq) = end_segment st"
      and m: "nodes (fst sq) u = Some m" "\<not> xless (cost n) (cost m)" "next_segment m = next_segment n"
      by auto
    have "u \<notin> set cs \<or> next_segment m \<noteq> end_segment (fst sq)"
      using Cons.prems(3) m(3) es by auto
    from Cons.IH [OF rest m(1) this]
    obtain n' where "nodes st' u = Some n'" "\<not> xless (cost m) (cost n')" by blast
    then show ?thesis using m(2) not_xless_trans by blast
  qed
qed

lemma dijkstra_loop_dequeues:
  assumes "dijkstra_loop k fuel P G st queue = Some (Inr st')"
  shows "\<exists>cs. run_dequeued fuel P G st cs = Some (Inr st')"
  using assms
proof (induction k fuel P G st queue rule: dijkstra_loop.induct)
  case (1 k fuel P G st)
  then have "run_dequeued fuel P G st [] = Some (Inr st')" by simp
  then show ?case by blast
next
  case (2 fuel P G st current queue)
  then show ?case by simp
next
  case (3 k fuel P G st current queue)
  show ?case
  proof (cases "next_segment (deref st current) = end_segment st")
    case True
    then obtain st1 where fin: "generatePathCandidate fuel P G st current = Some st1"
      and rest: "dijkstra_loop k fuel P G st1 queue = Some (Inr st')"
      using "3.prems" by (auto split: option.splits)
    from "3.IH"(1) [OF True fin rest]
    obtain cs where "run_dequeued fuel P G st1 cs = Some (Inr st')" by blast
    then have "run_dequeued fuel P G st (current # cs) = Some (Inr st')"
      using True fin by simp
    then show ?thesis by blast
  next
    case False
    then obtain sq where rel: "relax_neighbors P G current (st, queue) = Inr sq"
      and rest: "dijkstra_loop k fuel P G (fst sq) (snd sq) = Some (Inr st')"
      using "3.prems" by (auto split: sum.splits)
    from "3.IH"(2) [OF False rel rest]
    obtain cs where cs: "run_dequeued fuel P G (fst sq) cs = Some (Inr st')" by blast
    from rel have "for_each (relax_step P G current)
        (transition_addresses G (next_segment (deref st current))) (st, queue) = Inr (fst sq, snd sq)"
      by (simp add: relax_neighbors_def)
    from for_each_relax_any_queue [OF this, of "[]"]
    obtain q where "relax_neighbors P G current (st, []) = Inr (fst sq, q)"
      by (auto simp: relax_neighbors_def)
    then have "run_dequeued fuel P G st (current # cs) = Some (Inr st')"
      using False cs by simp
    then show ?thesis by blast
  qed
qed

text \<open>The two loops of \<^verbatim>\<open>insertCurveSegment\<close> render the polyline in the order of travel.\<close>

lemma curve_loop_forward_poses:
  "1 \<le> j \<Longrightarrow> j + k = length pts \<Longrightarrow>
   curve_loop_forward pts j k res = res @ poses_along (drop (j - 1) pts)"
proof (induction k arbitrary: j res)
  case 0
  then show ?case by (cases pts rule: rev_cases) auto
next
  case (Suc k)
  obtain i where i: "j = Suc i"
    using Suc.prems(1) by (cases j) auto
  have lt: "Suc i < length pts"
    using Suc.prems i by simp
  have d: "drop i pts = pts ! i # pts ! Suc i # drop (Suc (Suc i)) pts"
    using lt by (simp add: Cons_nth_drop_Suc Suc_lessD)
  have d2: "drop (Suc i) pts = pts ! Suc i # drop (Suc (Suc i)) pts"
    using lt by (simp add: Cons_nth_drop_Suc)
  let ?pose = "\<lparr>pose_pos = pts ! j,
                 pose_theta = atan2 (snd (vsub (pts ! j) (pts ! (j - 1))))
                                    (fst (vsub (pts ! j) (pts ! (j - 1))))\<rparr>"
  have "curve_loop_forward pts (Suc j) k (res @ [?pose]) =
          (res @ [?pose]) @ poses_along (drop (Suc j - 1) pts)"
    using Suc.prems by (intro Suc.IH) auto
  then show ?case
    using i d d2 by (simp add: Let_def)
qed

lemma curve_loop_backward_poses:
  "Suc n \<le> length pts \<Longrightarrow>
   curve_loop_backward pts n res = res @ poses_along (rev (take (Suc n) pts))"
proof (induction n arbitrary: res)
  case 0
  then show ?case by (cases pts) auto
next
  case (Suc n)
  have t2: "take (Suc (Suc n)) pts = take n pts @ [pts ! n, pts ! Suc n]"
    using Suc.prems by (simp add: take_Suc_conv_app_nth)
  have t1: "take (Suc n) pts = take n pts @ [pts ! n]"
    using Suc.prems by (simp add: take_Suc_conv_app_nth)
  show ?case
    using Suc.prems Suc.IH t1 t2 by (simp add: Let_def)
qed

lemma poses_along_positions: "map pose_pos (poses_along ps) = tl ps"
  by (induction ps rule: poses_along.induct) auto

subsection \<open>The search loop\<close>

text \<open>
  Claim C1. \<^verbatim>\<open>performDijkstraSearch\<close> finalizes a candidate for every dequeued node
  whose resulting segment is the end segment and goes on, ends when the frontier is
  empty, and returns the path of the cheapest candidate, or an empty sequence when
  there was no candidate. The last part fails: a request from segment 2 of the chain
  course, which no transition leaves, to segment 0 finds no candidate, and a planner
  that has not served a request before returns the start appendix followed by the end
  appendix.
\<close>

theorem search_without_candidate_returns_appendices:
  "returned (findPath 2 ex_params (ex_env (6, 4, 0) (0, 0, 0) closest_by_x) ex_course fresh_search
      (pose_at 6 4 0) (pose_at 0 0 0)) =
     Some (Inr [pose_at 6 4 0, pose_at 0 0 0])"
  by (simp add: request_defs search_defs cost_defs example_defs geometry_defs)

text \<open>
  Claim C2. The cost of a node only ever decreases after its first assignment during a
  search run. This fails: on the chain course with the end point (3,3) on segment 1 the
  node of the first transition is seeded with the cost 2 and has the cost 4 when the
  search returns, since \<^verbatim>\<open>generatePathCandidate\<close> adds the cost of the last straight
  part to the cost of the node.
\<close>

theorem cost_raised_after_first_assignment:
  "map_sum id (\<lambda>sq. map_option cost (nodes (fst sq) (0, True, 0)))
     (enqueueStartingNodes ex_params ex_course (initNodes ex_course (ex_search 1 (3, 3)), [])) =
     Inr (Some (Fin 2)) \<and>
   map_option (map_sum id (\<lambda>r. map_option cost (nodes (snd r) (0, True, 0))))
     (performDijkstraSearch 2 ex_params ex_course (ex_search 1 (3, 3))) =
     Some (Inr (Some (Fin 4))) \<and>
   xless (Fin 2) (Fin 4)"
  by (simp add: search_defs cost_defs example_defs geometry_defs)

text \<open>
  Claim C2, amended. During a search run the cost of a node only ever decreases after
  its first assignment, except when the node itself is finalized as a candidate:
  \<^item> relaxing the neighbours of a dequeued node leaves no node with a higher cost;
  \<^item> finalizing a candidate sets the cost of its node to the former cost plus the
    straight cost from the node to the end point and leaves the cost of every other
    node as it was, and it returns whenever the predecessor links of the node end;
  \<^item> over any number of iterations of the loop, in whatever order nodes are taken, the
    cost of a node that is not taken, or whose resulting segment is not the end
    segment, is never higher than before;
  \<^item> every run of the loop is such a sequence of iterations.
\<close>

theorem relaxation_lowers_finalization_adds:
  assumes "nodes st u = Some m"
  shows "(relax_neighbors P G current (st, queue) = Inr (st', queue') \<longrightarrow>
            (\<exists>m'. nodes st' u = Some m' \<and> \<not> xless (cost m) (cost m'))) \<and>
         (generatePathCandidate fuel P G st t = Some st'' \<longrightarrow>
            (\<exists>m''. nodes st'' u = Some m'' \<and>
               cost m'' =
                 (if u = t
                  then xadd (cost m)
                         (calculateStraightCost P G st m (findStartPointOnNextSegment G st m)
                            (end_pt st))
                  else cost m))) \<and>
         (prev_chain_ends k st (Some t) \<and> k \<le> fuel \<longrightarrow>
            generatePathCandidate fuel P G st t \<noteq> None) \<and>
         (run_dequeued fuel P G st cs = Some (Inr st_run) \<and>
          (u \<notin> set cs \<or> next_segment m \<noteq> end_segment st) \<longrightarrow>
            (\<exists>m'. nodes st_run u = Some m' \<and> \<not> xless (cost m) (cost m'))) \<and>
         (dijkstra_loop n fuel P G st frontier = Some (Inr st_loop) \<longrightarrow>
            (\<exists>ds. run_dequeued fuel P G st ds = Some (Inr st_loop)))"
proof (intro conjI impI)
  assume "relax_neighbors P G current (st, queue) = Inr (st', queue')"
  from relax_neighbors_effect [OF this assms]
  show "\<exists>m'. nodes st' u = Some m' \<and> \<not> xless (cost m) (cost m')"
    by auto
next
  assume "generatePathCandidate fuel P G st t = Some st''"
  from candidate_effect [OF this assms]
  show "\<exists>m''. nodes st'' u = Some m'' \<and>
          cost m'' =
            (if u = t
             then xadd (cost m)
                    (calculateStraightCost P G st m (findStartPointOnNextSegment G st m) (end_pt st))
             else cost m)"
    by auto
next
  assume "prev_chain_ends k st (Some t) \<and> k \<le> fuel"
  then show "generatePathCandidate fuel P G st t \<noteq> None"
    using candidate_enough_fuel by blast
next
  assume "run_dequeued fuel P G st cs = Some (Inr st_run) \<and>
          (u \<notin> set cs \<or> next_segment m \<noteq> end_segment st)"
  then show "\<exists>m'. nodes st_run u = Some m' \<and> \<not> xless (cost m) (cost m')"
    using run_dequeued_effect [OF _ assms] by blast
next
  assume "dijkstra_loop n fuel P G st frontier = Some (Inr st_loop)"
  then show "\<exists>ds. run_dequeued fuel P G st ds = Some (Inr st_loop)"
    by (rule dijkstra_loop_dequeues)
qed

text \<open>
  On the chain course: expanding the node of the first transition lowers the cost of the
  node of the second transition from infinity to 6; finalizing that node, whose chain of
  predecessors has two nodes, raises its cost to 8 and leaves the cost 2 of the first
  node; the loop takes the two nodes in this order and ends in the same state.
\<close>

theorem relaxation_lowers_finalization_adds_witness:
  "nodes (fst ex_seeded) (1, True, 0) = Some (new_node (1, True, 0) True 2) \<and>
   relax_neighbors ex_params ex_course (0, True, 0) (fst ex_seeded, []) = Inr ex_relaxed \<and>
   map_option cost (nodes (fst ex_relaxed) (1, True, 0)) = Some (Fin 6) \<and>
   prev_chain_ends 2 (fst ex_relaxed) (Some (1, True, 0)) \<and>
   generatePathCandidate 2 ex_params ex_course (fst ex_relaxed) (1, True, 0) = Some ex_finalized \<and>
   map_option cost (nodes ex_finalized (1, True, 0)) = Some (Fin 8) \<and>
   map_option cost (nodes (fst ex_relaxed) (0, True, 0)) = Some (Fin 2) \<and>
   map_option cost (nodes ex_finalized (0, True, 0)) = Some (Fin 2) \<and>
   map_option cost (nodes (fst ex_seeded) (0, True, 0)) = Some (Fin 2) \<and>
   run_dequeued 2 ex_params ex_course (fst ex_seeded) [(0, True, 0), (1, True, 0)] =
     Some (Inr ex_finalized) \<and>
   dijkstra_loop 2 2 ex_params ex_course (fst ex_seeded) (snd ex_seeded) = Some (Inr ex_finalized)"
proof -
  note ev = ex_finalized_def ex_relaxed_def ex_seeded_def search_defs cost_defs
    example_defs geometry_defs
  have seeded: "nodes (fst ex_seeded) (1, True, 0) = Some (new_node (1, True, 0) True 2)"
    by (simp add: ev)
  have first: "nodes (fst ex_seeded) (0, True, 0) =
      Some \<lparr>transition = (0, True, 0), curve_forward = True, next_segment = 1,
            prev = None, nxt = None, cost = Fin 2\<rparr>"
    by (simp add: ev)
  have relaxed: "relax_neighbors ex_params ex_course (0, True, 0) (fst ex_seeded, []) =
      Inr (fst ex_relaxed, snd ex_relaxed)"
    by (simp add: ev)
  have node: "nodes (fst ex_relaxed) (1, True, 0) =
      Some \<lparr>transition = (1, True, 0), curve_forward = True, next_segment = 2,
            prev = Some (0, True, 0), nxt = None, cost = Fin 6\<rparr>"
    by (simp add: ev)
  have first': "nodes (fst ex_relaxed) (0, True, 0) =
      Some \<lparr>transition = (0, True, 0), curve_forward = True, next_segment = 1,
            prev = None, nxt = Some (1, True, 0), cost = Fin 2\<rparr>"
    by (simp add: ev)
  have chain: "prev_chain_ends 2 (fst ex_relaxed) (Some (1, True, 0))"
    by (simp add: ev)
  have finalized: "generatePathCandidate 2 ex_params ex_course (fst ex_relaxed) (1, True, 0) =
      Some ex_finalized"
    by (simp add: ev)
  have straight: "calculateStraightCost ex_params ex_course (fst ex_relaxed)
      \<lparr>transition = (1, True, 0), curve_forward = True, next_segment = 2,
       prev = Some (0, True, 0), nxt = None, cost = Fin 6\<rparr>
      (findStartPointOnNextSegment ex_course (fst ex_relaxed)
        \<lparr>transition = (1, True, 0), curve_forward = True, next_segment = 2,
         prev = Some (0, True, 0), nxt = None, cost = Fin 6\<rparr>)
      (end_pt (fst ex_relaxed)) = 2"
    by (simp add: ev)
  have run: "run_dequeued 2 ex_params ex_course (fst ex_seeded) [(0, True, 0), (1, True, 0)] =
      Some (Inr ex_finalized)"
    by (simp add: ev)
  have loop: "dijkstra_loop 2 2 ex_params ex_course (fst ex_seeded) (snd ex_seeded) =
      Some (Inr ex_finalized)"
    by (simp add: ev)
  have ends: "next_segment \<lparr>transition = (0, True, 0), curve_forward = True, next_segment = 1,
            prev = None, nxt = None, cost = Fin 2\<rparr> \<noteq> end_segment (fst ex_seeded)"
    by (simp add: ev)
  show ?thesis
    using relaxation_lowers_finalization_adds
        [where st = "fst ex_seeded" and u = "(1, True, 0)" and m = "new_node (1, True, 0) True 2"
           and P = ex_params and G = ex_course and current = "(0, True, 0)" and queue = "[]"
           and st' = "fst ex_relaxed" and queue' = "snd ex_relaxed", OF seeded]
      relaxation_lowers_finalization_adds
        [where st = "fst ex_relaxed" and u = "(1, True, 0)" and t = "(1, True, 0)"
           and P = ex_params and G = ex_course and fuel = 2 and k = 2
           and st'' = ex_finalized, OF node]
      relaxation_lowers_finalization_adds
        [where st = "fst ex_relaxed" and u = "(0, True, 0)" and t = "(1, True, 0)"
           and P = ex_params and G = ex_course and fuel = 2 and st'' = ex_finalized, OF first']
      relaxation_lowers_finalization_adds
        [where st = "fst ex_seeded" and u = "(0, True, 0)" and P = ex_params and G = ex_course
           and fuel = 2 and cs = "[(0, True, 0), (1, True, 0)]" and st_run = ex_finalized
           and n = 2 and frontier = "snd ex_seeded" and st_loop = ex_finalized, OF first]
      seeded first relaxed node first' chain finalized straight run loop ends
    by auto
qed

subsection \<open>Cost model\<close>

text \<open>
  Claim C3. \<^verbatim>\<open>calculateStraightCost\<close> adds \<open>turning_straight_segment + turning_penalty\<close>
  when the direction of travel on the previous segment differs from the one on the
  current segment, twice each when the two agree and differ from the direction of the
  curve, and nothing otherwise. The code takes the direction on the previous segment
  from the successor link of the predecessor, and relaxation leaves that link at the
  neighbour it improved last. On the branch course with the exit ahead listed first, the
  node of the exit ahead has the node of the first transition as predecessor, whose
  successor link points to the exit behind. The way to the exit ahead is forward on
  segment 1, the way to the end point is forward on segment 2 and the curve is forward,
  yet finalization charges 2 for the distance and \<open>7/10 + 5\<close> for a turn. The search
  returns the cost 137/10; with the two exits listed in the other order it returns 8 for
  the same path.
\<close>

theorem stale_successor_link_charges_single_turn:
  "prev (deref (branch_relaxed True) (1, True, 0)) = Some (0, True, 0) \<and>
   nxt (deref (branch_relaxed True) (0, True, 0)) = Some (1, True, 1) \<and>
   isSegmentForward (branch_course True ! 1)
     (findStartPointOnNextSegment (branch_course True) (branch_relaxed True)
        (deref (branch_relaxed True) (0, True, 0)))
     (findEndPointOnSegment (deref (branch_relaxed True) (1, True, 0))
        (transition_at (branch_course True) (1, True, 0))) \<and>
   isSegmentForward (branch_course True ! 2) (4, 8) (6, 8) \<and>
   curve_forward (deref (branch_relaxed True) (1, True, 0)) \<and>
   findStartPointOnNextSegment (branch_course True) (branch_relaxed True)
     (deref (branch_relaxed True) (1, True, 0)) = (4, 8) \<and>
   norm2 (vsub (6, 8) (4, 8)) = 2 \<and>
   calculateStraightCost ex_params (branch_course True) (branch_relaxed True)
     (deref (branch_relaxed True) (1, True, 0)) (4, 8) (6, 8) = 2 + (7 / 10 + 5) \<and>
   map_option (map_sum id (\<lambda>r. min_cost (snd r)))
     (performDijkstraSearch 3 ex_params (branch_course True) branch_search) =
     Some (Inr (Fin (137 / 10))) \<and>
   map_option (map_sum id (\<lambda>r. min_cost (snd r)))
     (performDijkstraSearch 3 ex_params (branch_course False) branch_search) =
     Some (Inr (Fin 8)) \<and>
   map_option (map_sum id fst)
     (performDijkstraSearch 3 ex_params (branch_course True) branch_search) =
     Some (Inr [pose_at 0 4 0, pose_at 3 4 0, pose_at 3 5 (pi / 2), pose_at 3 8 (pi / 2),
                pose_at 4 8 0, pose_at 6 8 0]) \<and>
   map_option (map_sum id fst)
     (performDijkstraSearch 3 ex_params (branch_course False) branch_search) =
     Some (Inr [pose_at 0 4 0, pose_at 3 4 0, pose_at 3 5 (pi / 2), pose_at 3 8 (pi / 2),
                pose_at 4 8 0, pose_at 6 8 0])"
  by (simp add: search_defs cost_defs example_defs geometry_defs)

subsection \<open>Seeding\<close>

text \<open>
  Claim C4. After \<^verbatim>\<open>enqueueStartingNodes\<close> every node of a transition of the start
  segment has its straight cost and is in the frontier. On the fork course both turns
  get the cost 2; the frontier takes nodes of equal cost for the same key, so it holds
  the node of the left turn only. The request to the point (3,-3) on segment 2, which
  the right turn reaches, then finds no candidate.
\<close>

theorem equal_cost_start_node_not_in_frontier:
  "map_sum id (\<lambda>sq. (snd sq, map (\<lambda>t. map_option cost (nodes (fst sq) t))
                                  (transition_addresses fork_course 0)))
     (enqueueStartingNodes ex_params fork_course (initNodes fork_course (ex_search 2 (3, - 3)), [])) =
     Inr ([(0, True, 0)], [Some (Fin 2), Some (Fin 2)]) \<and>
   returned (findPath 2 ex_params (ex_env (0, 0, 0) (3, - 3, 0) closest_by_x) fork_course fresh_search
      (pose_at 0 0 0) (pose_at 3 (- 3) 0)) =
     Some (Inr [pose_at 0 0 0, pose_at 3 (- 3) 0])"
  by (simp add: request_defs search_defs cost_defs example_defs geometry_defs)

subsection \<open>Requests\<close>

text \<open>
  Claim C5. No value of an earlier request appears in the result of a later one. A
  first request on the chain course from (0,0) to (6,4) finds a path of six poses. A
  second request to the same planner from (6,4) to (0,0) finds no candidate, and its
  result holds the six poses of the first request between its own appendices:
  \<^verbatim>\<open>best_path\<close> is cleared only when a candidate is found.
\<close>

theorem stale_best_path_in_later_result:
  "returned (findPath 2 ex_params (ex_env (0, 0, 0) (6, 4, 0) closest_by_x) ex_course fresh_search
      (pose_at 0 0 0) (pose_at 6 4 0)) =
     Some (Inr [pose_at 0 0 0,
                pose_at 0 0 0, pose_at 3 0 0, pose_at 3 1 (pi / 2), pose_at 3 4 (pi / 2),
                pose_at 4 4 0, pose_at 6 4 0,
                pose_at 6 4 0]) \<and>
   returned (findPath 2 ex_params (ex_env (6, 4, 0) (0, 0, 0) closest_by_x) ex_course
      (state_after fresh_search
         (findPath 2 ex_params (ex_env (0, 0, 0) (6, 4, 0) closest_by_x) ex_course fresh_search
            (pose_at 0 0 0) (pose_at 6 4 0)))
      (pose_at 6 4 0) (pose_at 0 0 0)) =
     Some (Inr [pose_at 6 4 0,
                pose_at 0 0 0, pose_at 3 0 0, pose_at 3 1 (pi / 2), pose_at 3 4 (pi / 2),
                pose_at 4 4 0, pose_at 6 4 0,
                pose_at 0 0 0])"
  by (simp add: request_defs search_defs cost_defs example_defs geometry_defs)

text \<open>
  Claim C6. When the closest-segment lookup finds no segment for an appendix endpoint,
  \<^verbatim>\<open>findPath\<close> returns an empty sequence. In the code the pointer is read before it
  is tested, for the start pose and for the end pose alike.
\<close>

theorem no_closest_segment_null_dereference:
  "findPath 2 ex_params (ex_env (0, 0, 0) (6, 4, 0) (\<lambda>p ang tol. None)) ex_course fresh_search
      (pose_at 0 0 0) (pose_at 6 4 0) = Some (Inl NullDereference) \<and>
   findPath 2 ex_params
      (ex_env (0, 0, 0) (6, 4, 0) (\<lambda>p ang tol. if fst (pose_pos p) \<le> 2 then Some 0 else None))
      ex_course fresh_search (pose_at 0 0 0) (pose_at 6 4 0) = Some (Inl NullDereference)"
  by (simp add: request_defs example_defs)

subsection \<open>Rendering\<close>

text \<open>
  Claim C7. \<^verbatim>\<open>insertCurveSegment\<close> appends a pose for every point of the polyline.
  This fails: for the polyline (2,0), (3,0), (3,1) driven forward it appends two poses,
  and none at (2,0).
\<close>

theorem insertCurveSegment_first_point_skipped:
  "insertCurveSegment ex_course [] ex_node =
     [\<lparr>pose_pos = (3, 0), pose_theta = 0\<rparr>, \<lparr>pose_pos = (3, 1), pose_theta = pi / 2\<rparr>] \<and>
   path (transition_at ex_course (transition ex_node)) = [(2, 0), (3, 0), (3, 1)]"
  by (simp add: insertCurveSegment_def cost_defs example_defs geometry_defs new_node_def
      numeral_2_eq_2)

text \<open>
  Claim C7, amended. \<^verbatim>\<open>insertCurveSegment\<close> appends a pose for every point of the
  polyline but the first in the order of travel (the polyline itself when the curve
  is driven forward, the reversed polyline when backward); the heading of each pose is
  the direction from the point before it in that order.
\<close>

theorem insertCurveSegment_poses:
  "insertCurveSegment G res node =
     res @ poses_along (if curve_forward node then path (transition_at G (transition node))
                        else rev (path (transition_at G (transition node)))) \<and>
   map pose_pos (insertCurveSegment G res node) =
     map pose_pos res @ tl (if curve_forward node then path (transition_at G (transition node))
                            else rev (path (transition_at G (transition node))))"
proof -
  let ?pts = "path (transition_at G (transition node))"
  have eq: "insertCurveSegment G res node =
     res @ poses_along (if curve_forward node then ?pts else rev ?pts)"
  proof (cases "?pts = []")
    case True
    then show ?thesis by (simp add: insertCurveSegment_def)
  next
    case False
    then have m: "Suc (length ?pts - 1) = length ?pts"
      by (cases ?pts) auto
    show ?thesis
      using curve_loop_forward_poses [of 1 "length ?pts - 1" ?pts res]
        curve_loop_backward_poses [of "length ?pts - 1" ?pts res] m
      by (simp add: insertCurveSegment_def Let_def)
  qed
  show ?thesis
    unfolding eq by (simp add: poses_along_positions)
qed

text \<open>
  The same polyline driven backward.
\<close>

theorem insertCurveSegment_poses_witness:
  "insertCurveSegment ex_course [] (ex_node\<lparr>curve_forward := False\<rparr>) =
     [\<lparr>pose_pos = (3, 0), pose_theta = - (pi / 2)\<rparr>, \<lparr>pose_pos = (2, 0), pose_theta = pi\<rparr>]"
proof -
  have p: "path (transition_at ex_course (transition ex_node)) = [(2, 0), (3, 0), (3, 1)]"
    by (simp add: cost_defs example_defs new_node_def)
  show ?thesis
    using insertCurveSegment_poses [of ex_course "[]" "ex_node\<lparr>curve_forward := False\<rparr>"]
    by (simp add: p geometry_defs)
qed

subsection \<open>Backward travel\<close>

text \<open>
  Claim C8. The cost of a curve is its arc length when driven forward and
  \<open>backward_penalty_factor\<close> times the arc length when driven backward. The distance
  term of the straight cost, which is the straight cost without the two turning
  constants, is the distance when the segment is driven forward and
  \<open>backward_penalty_factor\<close> times the distance when backward; so driving the same
  stretch against the direction of the segment costs \<open>backward_penalty_factor\<close> times
  driving it along the segment.
\<close>

theorem backward_penalty_scaling:
  "calculateCurveCost P G (node\<lparr>curve_forward := True\<rparr>) =
     arc_length (transition_at G (transition node)) \<and>
   calculateCurveCost P G (node\<lparr>curve_forward := False\<rparr>) =
     backward_penalty_factor P * calculateCurveCost P G (node\<lparr>curve_forward := True\<rparr>) \<and>
   calculateStraightCost (P\<lparr>turning_straight_segment := 0, turning_penalty := 0\<rparr>) G st node sp ep =
     (if isSegmentForward (G ! next_segment node) sp ep then norm2 (vsub ep sp)
      else backward_penalty_factor P * norm2 (vsub ep sp)) \<and>
   (0 < dot (vsub (line_end (G ! next_segment node)) (line_start (G ! next_segment node)))
          (vsub ep sp) \<longrightarrow>
      calculateStraightCost (P\<lparr>turning_straight_segment := 0, turning_penalty := 0\<rparr>) G st node ep sp =
        backward_penalty_factor P *
          calculateStraightCost (P\<lparr>turning_straight_segment := 0, turning_penalty := 0\<rparr>) G st node sp ep)"
proof -
  let ?P0 = "P\<lparr>turning_straight_segment := 0, turning_penalty := 0\<rparr>"
  let ?seg = "G ! next_segment node"
  let ?d = "vsub (line_end ?seg) (line_start ?seg)"
  have base: "calculateStraightCost ?P0 G st node a b =
      (if isSegmentForward ?seg a b then norm2 (vsub b a)
       else backward_penalty_factor P * norm2 (vsub b a))" for a b
    by (simp add: calculateStraightCost_def Let_def)
  have rel: "calculateStraightCost ?P0 G st node ep sp =
      backward_penalty_factor P * calculateStraightCost ?P0 G st node sp ep"
    if pos: "0 < dot ?d (vsub ep sp)"
  proof -
    have fwd: "isSegmentForward ?seg sp ep"
      using pos by (simp add: isSegmentForward_def isSegmentForward_log_def Let_def)
    have "dot ?d (vsub sp ep) < 0"
      using pos dot_vsub_flip [of ?d sp ep] by simp
    then have bwd: "\<not> isSegmentForward ?seg ep sp"
      by (simp add: isSegmentForward_def isSegmentForward_log_def Let_def)
    show ?thesis
      using fwd bwd by (simp add: base norm2_vsub_commute [of sp ep])
  qed
  show ?thesis
    using base rel by (simp add: calculateCurveCost_def)
qed

text \<open>
  Segment 1 of the chain course between (3,1) and (3,3).
\<close>

theorem backward_penalty_scaling_witness:
  "0 < dot (vsub (line_end (ex_course ! next_segment ex_node))
                 (line_start (ex_course ! next_segment ex_node))) (vsub (3, 3) (3, 1)) \<and>
   calculateCurveCost ex_params ex_course (ex_node\<lparr>curve_forward := True\<rparr>) = 2 \<and>
   calculateCurveCost ex_params ex_course (ex_node\<lparr>curve_forward := False\<rparr>) = 5 / 2 * 2 \<and>
   calculateStraightCost (ex_params\<lparr>turning_straight_segment := 0, turning_penalty := 0\<rparr>)
     ex_course (ex_search 2 (6, 4)) ex_node (3, 1) (3, 3) = 2 \<and>
   calculateStraightCost (ex_params\<lparr>turning_straight_segment := 0, turning_penalty := 0\<rparr>)
     ex_course (ex_search 2 (6, 4)) ex_node (3, 3) (3, 1) = 5 / 2 * 2"
proof -
  have pos: "0 < dot (vsub (line_end (ex_course ! next_segment ex_node))
                 (line_start (ex_course ! next_segment ex_node))) (vsub (3, 3) (3, 1))"
    by (simp add: example_defs geometry_defs new_node_def)
  have fwd: "isSegmentForward (ex_course ! next_segment ex_node) (3, 1) (3, 3)"
    by (simp add: cost_defs example_defs geometry_defs new_node_def)
  have len: "norm2 (vsub (3, 3) (3, 1)) = 2"
    by (simp add: geometry_defs)
  have arc: "arc_length (transition_at ex_course (transition ex_node)) = 2"
    by (simp add: cost_defs example_defs new_node_def)
  show ?thesis
    using backward_penalty_scaling [of ex_params ex_course ex_node "ex_search 2 (6, 4)" "(3, 1)" "(3, 3)"]
      pos fwd len arc
    by (simp add: ex_params_def)
qed

subsection \<open>Requests on one segment\<close>

text \<open>
  Claim C9. When both appendices are found and their endpoints are matched to the
  same segment, \<^verbatim>\<open>findPath\<close> returns the start appendix, a pose at the start point
  and a pose at the end point, both headed along the segment, and the end appendix. The
  nodes, the minimum cost and the best path of the planner stay as they were, whatever
  the fuel: the search does not run.
\<close>

theorem same_segment_short_circuit:
  assumes "map_service_call env"
    and "findAppendix env (AStarPatsyForward env) (AStarPatsyForwardTurning env) start_pose = sa"
    and "sa \<noteq> []"
    and "findAppendix env (AStarPatsyReversed env) (AStarPatsyReversedTurning env) end_pose = ea"
    and "ea \<noteq> []"
    and "findClosestSegment env (last sa) (pi / 8) (1 / 2) = Some s"
    and "findClosestSegment env (hd (rev ea)) (pi / 8) (1 / 2) = Some s"
  shows "findPath fuel P env G st start_pose end_pose =
     Some (Inr
       (sa @
        [\<lparr>pose_pos = nearestPointTo env (G ! s) (pose_pos (last sa)),
          pose_theta = atan2 (snd (vsub (line_end (G ! s)) (line_start (G ! s))))
                             (fst (vsub (line_end (G ! s)) (line_start (G ! s))))\<rparr>,
         \<lparr>pose_pos = nearestPointTo env (G ! s) (pose_pos (hd (rev ea))),
          pose_theta = atan2 (snd (vsub (line_end (G ! s)) (line_start (G ! s))))
                             (fst (vsub (line_end (G ! s)) (line_start (G ! s))))\<rparr>] @
        rev ea,
        st\<lparr>start_appendix := sa, start_segment := s,
           start_pt := nearestPointTo env (G ! s) (pose_pos (last sa)),
           end_appendix := rev ea, end_segment := s,
           end_pt := nearestPointTo env (G ! s) (pose_pos (hd (rev ea)))\<rparr>))"
proof -
  let ?st' = "st\<lparr>start_appendix := sa, start_segment := s,
           start_pt := nearestPointTo env (G ! s) (pose_pos (last sa)),
           end_appendix := rev ea, end_segment := s,
           end_pt := nearestPointTo env (G ! s) (pose_pos (hd (rev ea)))\<rparr>"
  have app: "findAppendices env G st start_pose end_pose = Inr (True, ?st')"
    using assms by (simp add: findAppendices_def Let_def)
  show ?thesis
    using assms(1,3,5)
    by (simp add: findPath_def app Let_def insertFirstNode_def insertLastNode_def combine_def)
qed

text \<open>
  A request from (0,0) to (1,0), both on segment 0 of the chain course.
\<close>

theorem same_segment_short_circuit_witness:
  "returned (findPath 0 ex_params (ex_env (0, 0, 0) (1, 0, 0) closest_by_x) ex_course fresh_search
      (pose_at 0 0 0) (pose_at 1 0 0)) =
     Some (Inr [pose_at 0 0 0, pose_at 0 0 0, pose_at 1 0 0, pose_at 1 0 0])"
proof -
  let ?env = "ex_env (0, 0, 0) (1, 0, 0) closest_by_x"
  have h1: "map_service_call ?env"
    by (simp add: example_defs)
  have h2: "findAppendix ?env (AStarPatsyForward ?env) (AStarPatsyForwardTurning ?env) (pose_at 0 0 0) =
      [pose_at 0 0 0]"
    by (simp add: request_defs example_defs)
  have h3: "findAppendix ?env (AStarPatsyReversed ?env) (AStarPatsyReversedTurning ?env) (pose_at 1 0 0) =
      [pose_at 1 0 0]"
    by (simp add: request_defs example_defs)
  have h4: "findClosestSegment ?env (last [pose_at 0 0 0]) (pi / 8) (1 / 2) = Some 0"
    by (simp add: example_defs)
  have h5: "findClosestSegment ?env (hd (rev [pose_at 1 0 0])) (pi / 8) (1 / 2) = Some 0"
    by (simp add: example_defs)
  show ?thesis
    using same_segment_short_circuit [OF h1 h2 _ h3 _ h4 h5, of 0 ex_params ex_course fresh_search]
    by (simp add: returned_def example_defs geometry_defs)
qed

subsection \<open>Direction test\<close>

text \<open>
  Claim C10. \<^verbatim>\<open>isSegmentForward\<close> answers forward exactly when the dot product of
  the direction of the segment and the movement is not negative, whether or not it
  logs the warning for a short movement. A movement of length zero is forward. When the
  dot product is zero the straight cost has no backward factor and the comparisons for
  the turn surcharge see forward travel; the same holds where the start segment and the
  next segment are tested.
\<close>

theorem isSegmentForward_dot_nonneg:
  "isSegmentForward_log segment pos tgt =
     (0 \<le> dot (vsub (line_end segment) (line_start segment)) (vsub tgt pos),
      norm2 (vsub tgt pos) < 1 / 10) \<and>
   isSegmentForward segment pos tgt =
     (0 \<le> dot (vsub (line_end segment) (line_start segment)) (vsub tgt pos)) \<and>
   isSegmentForward segment pos pos \<and>
   (dot (vsub (line_end (G ! next_segment node)) (line_start (G ! next_segment node)))
        (vsub ep sp) = 0 \<longrightarrow>
      calculateStraightCost P G st node sp ep =
        norm2 (vsub ep sp) +
        (if \<not> isPreviousSegmentForward G st node
         then turning_straight_segment P + turning_penalty P
         else if \<not> curve_forward node
         then 2 * turning_straight_segment P + 2 * turning_penalty P
         else 0)) \<and>
   (dot (vsub (line_end (G ! start_segment st)) (line_start (G ! start_segment st)))
        (vsub (findEndPointOnSegment node (transition_at G (transition node))) (start_pt st)) = 0 \<longrightarrow>
      isStartSegmentForward G st node) \<and>
   (dot (vsub (line_end (G ! next_segment node)) (line_start (G ! next_segment node)))
        (vsub (findEndPointOnNextSegment G st node) (findStartPointOnNextSegment G st node)) = 0 \<longrightarrow>
      isNextSegmentForward G st node)"
proof -
  have fwd: "isSegmentForward s a b = (0 \<le> dot (vsub (line_end s) (line_start s)) (vsub b a))"
    for s a b
    by (simp add: isSegmentForward_def isSegmentForward_log_def Let_def)
  have zero: "isSegmentForward segment pos pos"
    by (simp add: fwd dot_def vsub_def)
  have straight: "calculateStraightCost P G st node sp ep =
        norm2 (vsub ep sp) +
        (if \<not> isPreviousSegmentForward G st node
         then turning_straight_segment P + turning_penalty P
         else if \<not> curve_forward node
         then 2 * turning_straight_segment P + 2 * turning_penalty P
         else 0)"
    if "dot (vsub (line_end (G ! next_segment node)) (line_start (G ! next_segment node)))
        (vsub ep sp) = 0"
    using that by (simp add: calculateStraightCost_def fwd Let_def)
  show ?thesis
    using zero straight
    by (simp add: fwd isSegmentForward_log_def isStartSegmentForward_def
        isNextSegmentForward_def Let_def)
qed

text \<open>
  A movement across segment 1 of the chain course, which runs along the second axis.
\<close>

theorem isSegmentForward_dot_nonneg_witness:
  "dot (vsub (line_end (ex_course ! next_segment ex_node))
            (line_start (ex_course ! next_segment ex_node))) (vsub (5, 1) (3, 1)) = 0 \<and>
   isSegmentForward (ex_course ! next_segment ex_node) (3, 1) (5, 1) \<and>
   calculateStraightCost ex_params ex_course (ex_search 2 (6, 4)) ex_node (3, 1) (5, 1) = 2 \<and>
   dot (vsub (line_end (ex_course ! start_segment ((ex_search 2 (6, 4))\<lparr>start_pt := (2, 0)\<rparr>)))
            (line_start (ex_course ! start_segment ((ex_search 2 (6, 4))\<lparr>start_pt := (2, 0)\<rparr>))))
       (vsub (findEndPointOnSegment ex_node (transition_at ex_course (transition ex_node)))
             (start_pt ((ex_search 2 (6, 4))\<lparr>start_pt := (2, 0)\<rparr>))) = 0 \<and>
   isStartSegmentForward ex_course ((ex_search 2 (6, 4))\<lparr>start_pt := (2, 0)\<rparr>) ex_node \<and>
   dot (vsub (line_end (ex_course ! next_segment ex_node))
            (line_start (ex_course ! next_segment ex_node)))
       (vsub (findEndPointOnNextSegment ex_course (ex_search 1 (3, 1)) ex_node)
             (findStartPointOnNextSegment ex_course (ex_search 1 (3, 1)) ex_node)) = 0 \<and>
   isNextSegmentForward ex_course (ex_search 1 (3, 1)) ex_node"
proof -
  have d1: "dot (vsub (line_end (ex_course ! next_segment ex_node))
            (line_start (ex_course ! next_segment ex_node))) (vsub (5, 1) (3, 1)) = 0"
    by (simp add: example_defs geometry_defs new_node_def)
  have d2: "dot (vsub (line_end (ex_course ! start_segment ((ex_search 2 (6, 4))\<lparr>start_pt := (2, 0)\<rparr>)))
            (line_start (ex_course ! start_segment ((ex_search 2 (6, 4))\<lparr>start_pt := (2, 0)\<rparr>))))
       (vsub (findEndPointOnSegment ex_node (transition_at ex_course (transition ex_node)))
             (start_pt ((ex_search 2 (6, 4))\<lparr>start_pt := (2, 0)\<rparr>))) = 0"
    by (simp add: cost_defs example_defs geometry_defs new_node_def)
  have d3: "dot (vsub (line_end (ex_course ! next_segment ex_node))
            (line_start (ex_course ! next_segment ex_node)))
       (vsub (findEndPointOnNextSegment ex_course (ex_search 1 (3, 1)) ex_node)
             (findStartPointOnNextSegment ex_course (ex_search 1 (3, 1)) ex_node)) = 0"
    by (simp add: cost_defs example_defs geometry_defs new_node_def)
  have prev: "isPreviousSegmentForward ex_course (ex_search 2 (6, 4)) ex_node" "curve_forward ex_node"
    by (simp_all add: cost_defs example_defs geometry_defs new_node_def)
  have len: "norm2 (vsub (5, 1) (3, 1)) = 2"
    by (simp add: geometry_defs)
  show ?thesis
    using isSegmentForward_dot_nonneg [of "ex_course ! next_segment ex_node" "(3, 1)" "(5, 1)"
        ex_course ex_node "(5, 1)" "(3, 1)" ex_params "ex_search 2 (6, 4)"]
      isSegmentForward_dot_nonneg [of "ex_course ! next_segment ex_node" "(3, 1)" "(5, 1)"
        ex_course ex_node "(5, 1)" "(3, 1)" ex_params "(ex_search 2 (6, 4))\<lparr>start_pt := (2, 0)\<rparr>"]
      isSegmentForward_dot_nonneg [of "ex_course ! next_segment ex_node" "(3, 1)" "(5, 1)"
        ex_course ex_node "(5, 1)" "(3, 1)" ex_params "ex_search 1 (3, 1)"]
      d1 d2 d3 prev len
    by simp
qed

end
